theory Spec2Isabelle
  imports Main "HOL-Library.Word"
begin

section \<open>Go runtime notions shared by all components\<close>

text \<open>
  A call either returns, or panics (which, unrecovered in a request goroutine, ends the
  process), or blocks forever on a lock that is never released.  Go's result pairs
  \<^verbatim>\<open>(resp, err)\<close> are pairs of options, \<open>None\<close> standing for \<^verbatim>\<open>nil\<close>.
\<close>

datatype crash = NilDereference | IndexOutOfRange | UnlockOfUnlockedMutex

datatype 'a outcome = Return 'a | Panic crash | Blocked

text \<open>
  Error values.  \<open>Errorf\<close> is an error made from a fixed message and the values
  formatted into it, \<open>Wrap\<close> one whose message formats an underlying error, and
  \<open>External\<close> an error handed back by a collaborator outside the repository.
\<close>

datatype error =
    External string
  | Errorf string string
  | Wrap string error

type_synonym 'r goret = "'r option \<times> error option"

subsection \<open>sync.Mutex and sync.RWMutex, as seen by one goroutine\<close>

type_synonym Mutex = bool

definition Mutex_Lock :: "Mutex \<Rightarrow> Mutex option" where
  "Mutex_Lock m = (if m then None else Some True)"

definition Mutex_Unlock :: "Mutex \<Rightarrow> Mutex option" where
  "Mutex_Unlock m = (if m then Some False else None)"

record RWMutex =
  rw_writer :: bool
  rw_readers :: nat

definition RWMutex_Lock :: "RWMutex \<Rightarrow> RWMutex option" where
  "RWMutex_Lock l = (if rw_writer l \<or> 0 < rw_readers l then None else Some (l\<lparr>rw_writer := True\<rparr>))"

definition RWMutex_Unlock :: "RWMutex \<Rightarrow> RWMutex option" where
  "RWMutex_Unlock l = (if rw_writer l then Some (l\<lparr>rw_writer := False\<rparr>) else None)"

definition RWMutex_RLock :: "RWMutex \<Rightarrow> RWMutex option" where
  "RWMutex_RLock l = (if rw_writer l then None else Some (l\<lparr>rw_readers := Suc (rw_readers l)\<rparr>))"

definition RWMutex_RUnlock :: "RWMutex \<Rightarrow> RWMutex option" where
  "RWMutex_RUnlock l = (if rw_readers l = 0 then None else Some (l\<lparr>rw_readers := rw_readers l - 1\<rparr>))"

subsection \<open>strings.Split with a one-byte separator\<close>

fun strings_Split :: "string \<Rightarrow> char \<Rightarrow> string list" where
  "strings_Split [] sep = [[]]"
| "strings_Split (c # cs) sep =
     (if c = sep then [] # strings_Split cs sep
      else (case strings_Split cs sep of
              [] \<Rightarrow> [[c]]
            | x # xs \<Rightarrow> (c # x) # xs))"

section \<open>The image provider (provider/gcp/gcp\_image.go)\<close>

record ImageSpec =
  spec_Image :: string

record Image =
  img_Id :: string
  img_RepoTags :: "string list"
  img_RepoDigests :: "string list"
  img_Size :: "64 word"

record ImageFilter =
  flt_Image :: "ImageSpec option"

record ListImagesRequest =
  lir_Filter :: "ImageFilter option"

record ListImagesResponse =
  lir_Images :: "Image list"

record ImageStatusRequest =
  isr_Image :: "ImageSpec option"

record ImageStatusResponse =
  isp_Image :: "Image option"

text \<open>
  The provider: its lock and its directory.  The configuration is not read by the
  operations below.
\<close>

record gcpImageProvider =
  ip_lock :: RWMutex
  imageMap :: "string \<rightharpoonup> Image"

text \<open>
  \<open>range_values m ks\<close> is what a \<^verbatim>\<open>for _, v := range m\<close> loop collects when the
  runtime enumerates the keys of \<open>m\<close> in the order \<open>ks\<close>.
\<close>

fun range_values :: "('k \<rightharpoonup> 'v) \<Rightarrow> 'k list \<Rightarrow> 'v list" where
  "range_values m [] = []"
| "range_values m (k # ks) =
     (case m k of
        None \<Rightarrow> range_values m ks
      | Some v \<Rightarrow> v # range_values m ks)"

text \<open>
  ListImages takes the read lock, looks the filter's reference up (or collects every
  image when there is no filter) and releases the lock on return.
\<close>

definition ListImages ::
  "gcpImageProvider \<Rightarrow> string list \<Rightarrow> ListImagesRequest
     \<Rightarrow> ListImagesResponse goret outcome \<times> gcpImageProvider" where
  "ListImages p order req =
     (case RWMutex_RLock (ip_lock p) of
        None \<Rightarrow> (Blocked, p)
      | Some l1 \<Rightarrow>
          let result =
                (case lir_Filter req of
                   None \<Rightarrow> range_values (imageMap p) order
                 | Some f \<Rightarrow>
                     (case flt_Image f of
                        None \<Rightarrow> range_values (imageMap p) order
                      | Some spec \<Rightarrow>
                          (case imageMap p (spec_Image spec) of
                             None \<Rightarrow> []
                           | Some img \<Rightarrow> [img])));
              resp = \<lparr>lir_Images = result\<rparr>
          in (case RWMutex_RUnlock l1 of
                None \<Rightarrow> (Panic UnlockOfUnlockedMutex, p\<lparr>ip_lock := l1\<rparr>)
              | Some l2 \<Rightarrow> (Return (Some resp, None), p\<lparr>ip_lock := l2\<rparr>)))"

text \<open>
  ImageStatus.  The request is passed by pointer and its image specification is written
  through that pointer, so the model returns the caller's request object as it is after
  the call, next to the outcome and the provider.
\<close>

definition ImageStatus ::
  "gcpImageProvider \<Rightarrow> string list \<Rightarrow> ImageStatusRequest
     \<Rightarrow> ImageStatusResponse goret outcome \<times> gcpImageProvider \<times> ImageStatusRequest" where
  "ImageStatus p order req =
     (case isr_Image req of
        None \<Rightarrow> (Panic NilDereference, p, req)
      | Some spec \<Rightarrow>
          let name = spec_Image spec;
              untagged = (length (strings_Split name CHR '':'') = 1);
              name1 = (if untagged then name @ '':latest'' else name);
              spec1 = (if untagged then spec\<lparr>spec_Image := name1\<rparr> else spec);
              req1 = req\<lparr>isr_Image := Some spec1\<rparr>;
              newreq = \<lparr>lir_Filter = Some \<lparr>flt_Image = isr_Image req1\<rparr>\<rparr>
          in (case ListImages p order newreq of
                (Blocked, p1) \<Rightarrow> (Blocked, p1, req1)
              | (Panic c, p1) \<Rightarrow> (Panic c, p1, req1)
              | (Return (listresp, Some err), p1) \<Rightarrow> (Return (None, Some err), p1, req1)
              | (Return (None, None), p1) \<Rightarrow> (Panic NilDereference, p1, req1)
              | (Return (Some listresp, None), p1) \<Rightarrow>
                  (case lir_Images listresp of
                     [] \<Rightarrow> (Return (Some \<lparr>isp_Image = None\<rparr>, None), p1, req1)
                   | [img] \<Rightarrow> (Return (Some \<lparr>isp_Image = Some img\<rparr>, None), p1, req1)
                   | _ \<Rightarrow> (Return (None,
                            Some (Errorf ''ImageStatus returned more than one image'' [])), p1, req1))))"

section \<open>The runtime API messages used by the sandbox providers\<close>

text \<open>
  The messages of \<^verbatim>\<open>k8s.io/kubernetes/pkg/kubelet/api/v1alpha1/runtime\<close> that the
  providers read and build.  Optional scalar fields are pointers in that API and options
  here; Go maps are partial functions.  The generated getters are safe on a \<^verbatim>\<open>nil\<close>
  receiver and give the zero value of an unset field; the zero value of the sandbox state
  is \<open>READY\<close>.
\<close>

datatype PodSandBoxState = PodSandBoxState_READY | PodSandBoxState_NOTREADY

record PodSandboxMetadata =
  md_Name :: "string option"
  md_Uid :: "string option"
  md_Namespace :: "string option"
  md_Attempt :: "32 word option"

definition GetName :: "PodSandboxMetadata option \<Rightarrow> string" where
  "GetName m = (case m of None \<Rightarrow> [] | Some md \<Rightarrow> (case md_Name md of None \<Rightarrow> [] | Some n \<Rightarrow> n))"

definition GetNamespace :: "PodSandboxMetadata option \<Rightarrow> string" where
  "GetNamespace m =
     (case m of None \<Rightarrow> [] | Some md \<Rightarrow> (case md_Namespace md of None \<Rightarrow> [] | Some n \<Rightarrow> n))"

record NamespaceOption =
  no_HostNetwork :: "bool option"
  no_HostPid :: "bool option"
  no_HostIpc :: "bool option"

record LinuxPodSandboxConfig =
  lx_CgroupParent :: "string option"
  lx_NamespaceOptions :: "NamespaceOption option"

record PodSandboxConfig =
  cfg_Metadata :: "PodSandboxMetadata option"
  cfg_Labels :: "string \<rightharpoonup> string"
  cfg_Annotations :: "string \<rightharpoonup> string"
  cfg_Linux :: "LinuxPodSandboxConfig option"

record RunPodSandboxRequest =
  rq_Config :: "PodSandboxConfig option"

record RunPodSandboxResponse =
  rp_PodSandboxId :: "string option"

datatype StopPodSandboxResponse = StopPodSandboxResponse

datatype RemovePodSandboxResponse = RemovePodSandboxResponse

text \<open>
  The label selector of a filter is a Go map; it is kept as the list of its entries in
  the order a \<^verbatim>\<open>range\<close> loop enumerates them.
\<close>

record PodSandboxFilter =
  pf_Id :: "string option"
  pf_State :: "PodSandBoxState option"
  pf_LabelSelector :: "(string \<times> string) list"

definition GetId :: "PodSandboxFilter option \<Rightarrow> string" where
  "GetId m = (case m of None \<Rightarrow> [] | Some f \<Rightarrow> (case pf_Id f of None \<Rightarrow> [] | Some i \<Rightarrow> i))"

definition GetState :: "PodSandboxFilter option \<Rightarrow> PodSandBoxState" where
  "GetState m =
     (case m of
        None \<Rightarrow> PodSandBoxState_READY
      | Some f \<Rightarrow> (case pf_State f of None \<Rightarrow> PodSandBoxState_READY | Some s \<Rightarrow> s))"

definition GetLabelSelector :: "PodSandboxFilter option \<Rightarrow> (string \<times> string) list" where
  "GetLabelSelector m = (case m of None \<Rightarrow> [] | Some f \<Rightarrow> pf_LabelSelector f)"

record Namespace =
  ns_Network :: "string option"
  ns_Options :: "NamespaceOption option"

record PodSandboxStatus =
  st_Id :: "string option"
  st_Metadata :: "PodSandboxMetadata option"
  st_State :: "PodSandBoxState option"
  st_CreatedAt :: "int option"
  st_Network_Ip :: "string option"
  st_Linux_Namespaces :: "Namespace option"
  st_Labels :: "string \<rightharpoonup> string"
  st_Annotations :: "string \<rightharpoonup> string"

record PodSandboxStatusResponse =
  sr_Status :: "PodSandboxStatus option"

record PodSandbox =
  sb_Id :: "string option"
  sb_Metadata :: "PodSandboxMetadata option"
  sb_State :: "PodSandBoxState option"
  sb_CreatedAt :: "int option"
  sb_Labels :: "string \<rightharpoonup> string"
  sb_Annotations :: "string \<rightharpoonup> string"

record ListPodSandboxResponse =
  lr_Items :: "PodSandbox list"

section \<open>The sandbox record (provider/common/poddata.go)\<close>

text \<open>
  A handle of an agent connection; the \<^verbatim>\<open>*Client\<close> pointer of a record is an option
  of it.  The identifier pointer of a record is set at creation and never \<^verbatim>\<open>nil\<close>.
\<close>

type_synonym Client = nat

record PodData =
  pd_Id :: string
  pd_Metadata :: "PodSandboxMetadata option"
  pd_Annotations :: "string \<rightharpoonup> string"
  pd_CreatedAt :: int
  pd_Ip :: string
  pd_Labels :: "string \<rightharpoonup> string"
  pd_Linux :: "LinuxPodSandboxConfig option"
  pd_StateLock :: Mutex
  pd_Client :: "Client option"
  pd_PodState :: PodSandBoxState

text \<open>
  What a request does outside the process, in program order: the calls to the VM backend,
  to the agent connection factory and to an agent connection, and the insertions into and
  deletions from a provider's directory.
\<close>

datatype 'vm event =
    EvReadFile string
  | EvProvision 'vm
  | EvGetIPs 'vm
  | EvCreateClient string
  | EvDestroy 'vm
  | EvGetState 'vm
  | EvClose "Client option"
  | EvMapInsert string
  | EvMapDelete string

definition StopPod :: "'a PodData_scheme \<Rightarrow> error option outcome \<times> 'a PodData_scheme" where
  "StopPod p =
     (case Mutex_Lock (pd_StateLock p) of
        None \<Rightarrow> (Blocked, p)
      | Some l1 \<Rightarrow>
          let p1 = p\<lparr>pd_StateLock := l1\<rparr>;
              p2 = p1\<lparr>pd_PodState := PodSandBoxState_NOTREADY\<rparr>
          in (case Mutex_Unlock (pd_StateLock p2) of
                None \<Rightarrow> (Panic UnlockOfUnlockedMutex, p2)
              | Some l2 \<Rightarrow> (Return None, p2\<lparr>pd_StateLock := l2\<rparr>)))"

definition RemovePod :: "'a PodData_scheme \<Rightarrow> error option \<times> 'vm event list" where
  "RemovePod p = (None, [EvClose (pd_Client p)])"

text \<open>The first version of the file: the status and the sandbox carry the state.\<close>

definition PodStatus :: "'a PodData_scheme \<Rightarrow> PodSandboxStatus outcome" where
  "PodStatus p =
     (case pd_Linux p of
        None \<Rightarrow> Panic NilDereference
      | Some lx \<Rightarrow>
          Return \<lparr>st_Id = Some (pd_Id p),
                  st_Metadata = pd_Metadata p,
                  st_State = Some (pd_PodState p),
                  st_CreatedAt = Some (pd_CreatedAt p),
                  st_Network_Ip = Some (pd_Ip p),
                  st_Linux_Namespaces =
                    Some \<lparr>ns_Network = Some ''host'', ns_Options = lx_NamespaceOptions lx\<rparr>,
                  st_Labels = pd_Labels p,
                  st_Annotations = pd_Annotations p\<rparr>)"

datatype filter_msg =
    NoMsg
  | DoesntMatch string
  | WantGot PodSandBoxState PodSandBoxState
  | KeyNotFound string
  | ValuesDidntMatch string string

fun FilterByLabels :: "'a PodData_scheme \<Rightarrow> (string \<times> string) list \<Rightarrow> bool \<times> filter_msg" where
  "FilterByLabels p [] = (False, NoMsg)"
| "FilterByLabels p ((key, filterVal) # rest) =
     (case pd_Labels p key of
        None \<Rightarrow> (True, KeyNotFound key)
      | Some podVal \<Rightarrow>
          if podVal \<noteq> filterVal then (True, ValuesDidntMatch filterVal podVal)
          else FilterByLabels p rest)"

definition Filter :: "'a PodData_scheme \<Rightarrow> PodSandboxFilter option \<Rightarrow> bool \<times> filter_msg" where
  "Filter p flt =
     (if flt \<noteq> None then
        if GetId flt \<noteq> [] \<and> GetId flt \<noteq> pd_Id p then (True, DoesntMatch (GetId flt))
        else if GetState flt \<noteq> pd_PodState p then (True, WantGot (GetState flt) (pd_PodState p))
        else FilterByLabels p (GetLabelSelector flt)
      else (False, NoMsg))"

definition GetSandbox :: "'a PodData_scheme \<Rightarrow> PodSandbox" where
  "GetSandbox p =
     \<lparr>sb_Id = Some (pd_Id p),
      sb_Metadata = pd_Metadata p,
      sb_State = Some (pd_PodState p),
      sb_CreatedAt = Some (pd_CreatedAt p),
      sb_Labels = pd_Labels p,
      sb_Annotations = pd_Annotations p\<rparr>"

text \<open>
  The second version of the file, used by the local-hypervisor provider: the status and
  the sandbox are built without a state, which the caller fills in.
\<close>

definition PodStatus2 :: "'a PodData_scheme \<Rightarrow> PodSandboxStatus goret outcome" where
  "PodStatus2 p =
     (case pd_Linux p of
        None \<Rightarrow> Panic NilDereference
      | Some lx \<Rightarrow>
          Return (Some \<lparr>st_Id = Some (pd_Id p),
                  st_Metadata = pd_Metadata p,
                  st_State = None,
                  st_CreatedAt = Some (pd_CreatedAt p),
                  st_Network_Ip = Some (pd_Ip p),
                  st_Linux_Namespaces =
                    Some \<lparr>ns_Network = Some ''host'', ns_Options = lx_NamespaceOptions lx\<rparr>,
                  st_Labels = pd_Labels p,
                  st_Annotations = pd_Annotations p\<rparr>, None))"

definition GetSandbox2 :: "'a PodData_scheme \<Rightarrow> PodSandbox" where
  "GetSandbox2 p =
     \<lparr>sb_Id = Some (pd_Id p),
      sb_Metadata = pd_Metadata p,
      sb_State = None,
      sb_CreatedAt = Some (pd_CreatedAt p),
      sb_Labels = pd_Labels p,
      sb_Annotations = pd_Annotations p\<rparr>"

section \<open>The collaborators of a provider\<close>

text \<open>
  The VM backend, the agent connection factory, the file system and the clock are outside
  the repository.  Their answers during one request are the fields of a record: what
  \<^verbatim>\<open>Provision\<close> makes of a VM template (the VM with its identity assigned) or the error
  it gives, the addresses \<^verbatim>\<open>GetIPs\<close> reports, and so on.  \<open>be_NowCheck sid\<close> and
  \<open>be_NowStamp sid\<close> are the readings of \<^verbatim>\<open>time.Now()\<close> when the cached state of the record
  \<open>sid\<close> is tested for staleness and when it is stamped after a refresh.  Times are in
  nanoseconds.
\<close>

record 'vm backend =
  be_ReadFile :: "string \<Rightarrow> error + string"
  be_Provision :: "'vm \<Rightarrow> error + 'vm"
  be_GetIPs :: "'vm \<Rightarrow> error + string list"
  be_CreateClient :: "string \<Rightarrow> Client option \<times> error option"
  be_Destroy :: "'vm \<Rightarrow> error option"
  be_GetState :: "'vm \<Rightarrow> error + string"
  be_NowUnix :: int
  be_NowCreated :: int
  be_NowCheck :: "string \<Rightarrow> int"
  be_NowStamp :: "string \<Rightarrow> int"

definition Second :: int where
  "Second = 1000000000"

definition VMRunning :: string where
  "VMRunning = ''running''"

section \<open>The cloud provider (provider/aws/aws.go)\<close>

text \<open>
  Of the VM template only the name, the key read from the key file and the instance
  identifier that provisioning assigns are kept; the other fields are copied from the
  configuration and not read again by the provider.
\<close>

record aws_VM =
  vm_Name :: string
  vm_SSHPrivateKey :: string
  vm_InstanceID :: string

record aws_podData = PodData +
  aws_vm :: aws_VM
  aws_vmState :: string
  aws_vmStateLastChecked :: int

record awsConfig =
  ac_Ami :: string
  ac_Region :: string
  ac_SecurityGroup :: string
  ac_Vpc :: string
  ac_Subnet :: string
  ac_SshKey :: string

record awsProvider =
  aws_vmMap :: "string \<rightharpoonup> aws_podData"
  aws_vmMapLock :: RWMutex
  aws_config :: awsConfig

definition aws_getPodData :: "awsProvider \<Rightarrow> string \<Rightarrow> error + aws_podData" where
  "aws_getPodData v sid =
     (case aws_vmMap v sid of
        None \<Rightarrow> Inl (Errorf ''Invalid PodSandboxId'' sid)
      | Some podData \<Rightarrow> Inr podData)"

text \<open>Returning through a deferred \<^verbatim>\<open>RUnlock\<close> or \<^verbatim>\<open>Unlock\<close> of the directory lock.\<close>

definition aws_return_RUnlock ::
  "awsProvider \<Rightarrow> aws_VM event list \<Rightarrow> 'r \<Rightarrow> 'r outcome \<times> awsProvider \<times> aws_VM event list" where
  "aws_return_RUnlock v evs r =
     (case RWMutex_RUnlock (aws_vmMapLock v) of
        None \<Rightarrow> (Panic UnlockOfUnlockedMutex, v, evs)
      | Some l \<Rightarrow> (Return r, v\<lparr>aws_vmMapLock := l\<rparr>, evs))"

definition aws_return_Unlock ::
  "awsProvider \<Rightarrow> aws_VM event list \<Rightarrow> 'r \<Rightarrow> 'r outcome \<times> awsProvider \<times> aws_VM event list" where
  "aws_return_Unlock v evs r =
     (case RWMutex_Unlock (aws_vmMapLock v) of
        None \<Rightarrow> (Panic UnlockOfUnlockedMutex, v, evs)
      | Some l \<Rightarrow> (Return r, v\<lparr>aws_vmMapLock := l\<rparr>, evs))"

definition aws_RunPodSandbox ::
  "awsProvider \<Rightarrow> aws_VM backend \<Rightarrow> RunPodSandboxRequest
     \<Rightarrow> RunPodSandboxResponse goret outcome \<times> awsProvider \<times> aws_VM event list" where
  "aws_RunPodSandbox v be req =
     (let keyfile = ac_SshKey (aws_config v); evs0 = [EvReadFile keyfile] in
      case be_ReadFile be keyfile of
        Inl err \<Rightarrow> (Return (None, Some (Wrap ''failed to read key'' err)), v, evs0)
      | Inr rawKey \<Rightarrow>
     (case rq_Config req of
        None \<Rightarrow> (Panic NilDereference, v, evs0)
      | Some config \<Rightarrow>
     (let awsName = GetNamespace (cfg_Metadata config) @ '':'' @ GetName (cfg_Metadata config);
          vm0 = \<lparr>vm_Name = awsName, vm_SSHPrivateKey = rawKey, vm_InstanceID = []\<rparr>;
          evs1 = evs0 @ [EvProvision vm0] in
      case be_Provision be vm0 of
        Inl err \<Rightarrow> (Return (None, Some (Wrap ''failed to provision vm'' err)), v, evs1)
      | Inr vm \<Rightarrow>
     (let evs2 = evs1 @ [EvGetIPs vm] in
      case be_GetIPs be vm of
        Inl err \<Rightarrow> (Return (None, Some (Wrap ''CreatePodSandbox: error in GetIPs()'' err)), v, evs2)
      | Inr ips \<Rightarrow>
     (case ips of
        [] \<Rightarrow> (Panic IndexOutOfRange, v, evs2)
      | ip # _ \<Rightarrow>
     (let name = vm_InstanceID vm; evs3 = evs2 @ [EvCreateClient ip] in
      case be_CreateClient be ip of
        (_, Some err) \<Rightarrow>
          (Return (None, Some (Wrap ''CreatePodSandbox: error in createClient()'' err)), v, evs3)
      | (None, None) \<Rightarrow>
          (Return (None, Some (Errorf ''returned a nil GRPC client'' [])), v, evs3 @ [EvDestroy vm])
      | (Some client, None) \<Rightarrow>
     (case RWMutex_Lock (aws_vmMapLock v) of
        None \<Rightarrow> (Blocked, v, evs3)
      | Some l1 \<Rightarrow>
          let v1 = v\<lparr>aws_vmMapLock := l1\<rparr>;
              podData =
                \<lparr>pd_Id = name,
                 pd_Metadata = cfg_Metadata config,
                 pd_Annotations = cfg_Annotations config,
                 pd_CreatedAt = be_NowUnix be,
                 pd_Ip = ip,
                 pd_Labels = cfg_Labels config,
                 pd_Linux = cfg_Linux config,
                 pd_StateLock = False,
                 pd_Client = Some client,
                 pd_PodState = PodSandBoxState_READY,
                 aws_vm = vm,
                 aws_vmState = VMRunning,
                 aws_vmStateLastChecked = be_NowCreated be\<rparr>;
              v2 = v1\<lparr>aws_vmMap := (aws_vmMap v1)(name \<mapsto> podData)\<rparr>;
              resp = \<lparr>rp_PodSandboxId = Some name\<rparr>
          in aws_return_Unlock v2 (evs3 @ [EvMapInsert name]) (Some resp, None))))))))"

text \<open>
  Stop, remove and status hold the directory lock for the whole call and the record's
  state lock from the lookup on; both are released by deferred calls on return.  The
  record is reached through a pointer, so what is done to it is written back under its
  key.
\<close>

definition aws_StopPodSandbox ::
  "awsProvider \<Rightarrow> string
     \<Rightarrow> StopPodSandboxResponse goret outcome \<times> awsProvider \<times> aws_VM event list" where
  "aws_StopPodSandbox v sid =
     (case RWMutex_RLock (aws_vmMapLock v) of
        None \<Rightarrow> (Blocked, v, [])
      | Some l1 \<Rightarrow>
     (let v1 = v\<lparr>aws_vmMapLock := l1\<rparr> in
      case aws_getPodData v1 sid of
        Inl err \<Rightarrow> aws_return_RUnlock v1 [] (None, Some (Wrap ''StopPodSandbox'' err))
      | Inr podData \<Rightarrow>
     (case Mutex_Lock (pd_StateLock podData) of
        None \<Rightarrow> (Blocked, v1, [])
      | Some s1 \<Rightarrow>
     (case StopPod (podData\<lparr>pd_StateLock := s1\<rparr>) of
        (Blocked, pd1) \<Rightarrow> (Blocked, v1\<lparr>aws_vmMap := (aws_vmMap v1)(sid \<mapsto> pd1)\<rparr>, [])
      | (Panic c, pd1) \<Rightarrow> (Panic c, v1\<lparr>aws_vmMap := (aws_vmMap v1)(sid \<mapsto> pd1)\<rparr>, [])
      | (Return err, pd1) \<Rightarrow>
     (case Mutex_Unlock (pd_StateLock pd1) of
        None \<Rightarrow> (Panic UnlockOfUnlockedMutex, v1\<lparr>aws_vmMap := (aws_vmMap v1)(sid \<mapsto> pd1)\<rparr>, [])
      | Some s2 \<Rightarrow>
          aws_return_RUnlock
            (v1\<lparr>aws_vmMap := (aws_vmMap v1)(sid \<mapsto> pd1\<lparr>pd_StateLock := s2\<rparr>)\<rparr>) []
            (Some StopPodSandboxResponse, err))))))"

definition aws_RemovePodSandbox ::
  "awsProvider \<Rightarrow> aws_VM backend \<Rightarrow> string
     \<Rightarrow> RemovePodSandboxResponse goret outcome \<times> awsProvider \<times> aws_VM event list" where
  "aws_RemovePodSandbox v be sid =
     (case RWMutex_Lock (aws_vmMapLock v) of
        None \<Rightarrow> (Blocked, v, [])
      | Some l1 \<Rightarrow>
     (let v1 = v\<lparr>aws_vmMapLock := l1\<rparr> in
      case aws_getPodData v1 sid of
        Inl err \<Rightarrow> aws_return_Unlock v1 [] (None, Some (Wrap ''RemovePodSandbox'' err))
      | Inr podData \<Rightarrow>
     (case Mutex_Lock (pd_StateLock podData) of
        None \<Rightarrow> (Blocked, v1, [])
      | Some s1 \<Rightarrow>
     (let pd1 = podData\<lparr>pd_StateLock := s1\<rparr>; evs1 = [EvDestroy (aws_vm pd1)] in
      case be_Destroy be (aws_vm pd1) of
        Some err \<Rightarrow>
          (case Mutex_Unlock (pd_StateLock pd1) of
             None \<Rightarrow> (Panic UnlockOfUnlockedMutex, v1\<lparr>aws_vmMap := (aws_vmMap v1)(sid \<mapsto> pd1)\<rparr>, evs1)
           | Some s2 \<Rightarrow>
               aws_return_Unlock
                 (v1\<lparr>aws_vmMap := (aws_vmMap v1)(sid \<mapsto> pd1\<lparr>pd_StateLock := s2\<rparr>)\<rparr>) evs1
                 (None, Some (Wrap ''RemovePodSandbox'' err)))
      | None \<Rightarrow>
     (let (err, evs_close) = RemovePod pd1;
          v2 = v1\<lparr>aws_vmMap := (aws_vmMap v1)(sid := None)\<rparr>;
          evs2 = evs1 @ evs_close @ [EvMapDelete sid] in
      case Mutex_Unlock (pd_StateLock pd1) of
        None \<Rightarrow> (Panic UnlockOfUnlockedMutex, v2, evs2)
      | Some s2 \<Rightarrow> aws_return_Unlock v2 evs2 (Some RemovePodSandboxResponse, err))))))"

definition updateVMState ::
  "aws_VM backend \<Rightarrow> aws_podData \<Rightarrow> string \<times> aws_podData \<times> aws_VM event list" where
  "updateVMState be podData =
     (let ret = aws_vmState podData in
      if be_NowCheck be (pd_Id podData) > aws_vmStateLastChecked podData + 30 * Second then
        (case be_GetState be (aws_vm podData) of
           Inl err \<Rightarrow> (ret, podData, [EvGetState (aws_vm podData)])
         | Inr vmState \<Rightarrow>
             let pd1 = podData\<lparr>aws_vmState := vmState\<rparr>;
                 pd2 = pd1\<lparr>aws_vmStateLastChecked := be_NowStamp be (pd_Id podData)\<rparr>
             in (aws_vmState pd2, pd2, [EvGetState (aws_vm podData)]))
      else (ret, podData, []))"

definition aws_PodSandboxStatus ::
  "awsProvider \<Rightarrow> aws_VM backend \<Rightarrow> string
     \<Rightarrow> PodSandboxStatusResponse goret outcome \<times> awsProvider \<times> aws_VM event list" where
  "aws_PodSandboxStatus v be sid =
     (case RWMutex_RLock (aws_vmMapLock v) of
        None \<Rightarrow> (Blocked, v, [])
      | Some l1 \<Rightarrow>
     (let v1 = v\<lparr>aws_vmMapLock := l1\<rparr> in
      case aws_getPodData v1 sid of
        Inl err \<Rightarrow> aws_return_RUnlock v1 [] (None, Some (Wrap ''PodSandboxStatus'' err))
      | Inr podData \<Rightarrow>
     (case Mutex_Lock (pd_StateLock podData) of
        None \<Rightarrow> (Blocked, v1, [])
      | Some s1 \<Rightarrow>
     (let (vmState, pd2, evs) = updateVMState be (podData\<lparr>pd_StateLock := s1\<rparr>);
          pd3 = (if vmState \<noteq> VMRunning then pd2\<lparr>pd_PodState := PodSandBoxState_NOTREADY\<rparr>
                 else pd2);
          v3 = v1\<lparr>aws_vmMap := (aws_vmMap v1)(sid \<mapsto> pd3)\<rparr> in
      case PodStatus pd3 of
        Blocked \<Rightarrow> (Blocked, v3, evs)
      | Panic c \<Rightarrow> (Panic c, v3, evs)
      | Return status \<Rightarrow>
     (case Mutex_Unlock (pd_StateLock pd3) of
        None \<Rightarrow> (Panic UnlockOfUnlockedMutex, v3, evs)
      | Some s2 \<Rightarrow>
          aws_return_RUnlock
            (v1\<lparr>aws_vmMap := (aws_vmMap v1)(sid \<mapsto> pd3\<lparr>pd_StateLock := s2\<rparr>)\<rparr>) evs
            (Some \<lparr>sr_Status = Some status\<rparr>, None))))))"

text \<open>
  \<^verbatim>\<open>filter\<close> gives the sandbox of a record that passes the request's filter, and nothing
  for one that does not.
\<close>

definition aws_filter ::
  "aws_VM backend \<Rightarrow> aws_podData \<Rightarrow> PodSandboxFilter option
     \<Rightarrow> PodSandbox option outcome \<times> aws_podData \<times> aws_VM event list" where
  "aws_filter be podData reqFilter =
     (case Mutex_Lock (pd_StateLock podData) of
        None \<Rightarrow> (Blocked, podData, [])
      | Some s1 \<Rightarrow>
     (let (vmState, pd2, evs) = updateVMState be (podData\<lparr>pd_StateLock := s1\<rparr>);
          pd3 = (if vmState \<noteq> VMRunning then pd2\<lparr>pd_PodState := PodSandBoxState_NOTREADY\<rparr>
                 else pd2);
          result = (if fst (Filter pd3 reqFilter) then None else Some (GetSandbox pd3)) in
      case Mutex_Unlock (pd_StateLock pd3) of
        None \<Rightarrow> (Panic UnlockOfUnlockedMutex, pd3, evs)
      | Some s2 \<Rightarrow> (Return result, pd3\<lparr>pd_StateLock := s2\<rparr>, evs)))"

text \<open>
  The loop of ListPodSandbox over the directory; \<open>ids\<close> is the order in which the
  runtime enumerates the keys.
\<close>

fun aws_ListPodSandbox_loop ::
  "aws_VM backend \<Rightarrow> PodSandboxFilter option \<Rightarrow> string list \<Rightarrow> awsProvider
     \<Rightarrow> PodSandbox list \<Rightarrow> aws_VM event list
     \<Rightarrow> PodSandbox list outcome \<times> awsProvider \<times> aws_VM event list" where
  "aws_ListPodSandbox_loop be flt [] v sandboxes evs = (Return sandboxes, v, evs)"
| "aws_ListPodSandbox_loop be flt (sid # ids) v sandboxes evs =
     (case aws_vmMap v sid of
        None \<Rightarrow> aws_ListPodSandbox_loop be flt ids v sandboxes evs
      | Some podData \<Rightarrow>
          (case aws_filter be podData flt of
             (Blocked, pd1, evs1) \<Rightarrow>
               (Blocked, v\<lparr>aws_vmMap := (aws_vmMap v)(sid \<mapsto> pd1)\<rparr>, evs @ evs1)
           | (Panic c, pd1, evs1) \<Rightarrow>
               (Panic c, v\<lparr>aws_vmMap := (aws_vmMap v)(sid \<mapsto> pd1)\<rparr>, evs @ evs1)
           | (Return None, pd1, evs1) \<Rightarrow>
               aws_ListPodSandbox_loop be flt ids
                 (v\<lparr>aws_vmMap := (aws_vmMap v)(sid \<mapsto> pd1)\<rparr>) sandboxes (evs @ evs1)
           | (Return (Some sandbox), pd1, evs1) \<Rightarrow>
               aws_ListPodSandbox_loop be flt ids
                 (v\<lparr>aws_vmMap := (aws_vmMap v)(sid \<mapsto> pd1)\<rparr>) (sandboxes @ [sandbox])
                 (evs @ evs1)))"

definition aws_ListPodSandbox ::
  "awsProvider \<Rightarrow> aws_VM backend \<Rightarrow> string list \<Rightarrow> PodSandboxFilter option
     \<Rightarrow> ListPodSandboxResponse goret outcome \<times> awsProvider \<times> aws_VM event list" where
  "aws_ListPodSandbox v be order flt =
     (case RWMutex_RLock (aws_vmMapLock v) of
        None \<Rightarrow> (Blocked, v, [])
      | Some l1 \<Rightarrow>
          (case aws_ListPodSandbox_loop be flt order (v\<lparr>aws_vmMapLock := l1\<rparr>) [] [] of
             (Blocked, v2, evs) \<Rightarrow> (Blocked, v2, evs)
           | (Panic c, v2, evs) \<Rightarrow> (Panic c, v2, evs)
           | (Return sandboxes, v2, evs) \<Rightarrow>
               aws_return_RUnlock v2 evs (Some \<lparr>lr_Items = sandboxes\<rparr>, None)))"

definition aws_GetClientLocked :: "awsProvider \<Rightarrow> string \<Rightarrow> error + Client option" where
  "aws_GetClientLocked v podName =
     (case aws_getPodData v podName of
        Inl err \<Rightarrow> Inl (Errorf ''unknown pod name'' podName)
      | Inr podData \<Rightarrow> Inr (pd_Client podData))"

definition aws_GetClient ::
  "awsProvider \<Rightarrow> string
     \<Rightarrow> (error + Client option) outcome \<times> awsProvider \<times> aws_VM event list" where
  "aws_GetClient v podName =
     (case RWMutex_RLock (aws_vmMapLock v) of
        None \<Rightarrow> (Blocked, v, [])
      | Some l1 \<Rightarrow>
          let v1 = v\<lparr>aws_vmMapLock := l1\<rparr>
          in aws_return_RUnlock v1 [] (aws_GetClientLocked v1 podName))"

text \<open>
  GetVMList reads the directory without taking a lock; \<open>range_keys m ks\<close> is what a
  \<^verbatim>\<open>for name := range m\<close> loop collects when the keys are enumerated in the order \<open>ks\<close>.
\<close>

definition range_keys :: "('k \<rightharpoonup> 'v) \<Rightarrow> 'k list \<Rightarrow> 'k list" where
  "range_keys m ks = filter (\<lambda>k. m k \<noteq> None) ks"

definition aws_GetVMList :: "awsProvider \<Rightarrow> string list \<Rightarrow> string list" where
  "aws_GetVMList v order = range_keys (aws_vmMap v) order"

section \<open>An earlier revision of the cloud provider\<close>

text \<open>
  In this revision the directory lock is a plain mutex.  GetVMList locks it, defers the
  unlock, collects the keys, unlocks explicitly and returns, at which point the deferred
  unlock runs.
\<close>

record awsProvider0 =
  aws0_vmMap :: "string \<rightharpoonup> aws_podData"
  aws0_vmMapLock :: Mutex
  aws0_config :: awsConfig

definition aws0_GetVMList ::
  "awsProvider0 \<Rightarrow> string list \<Rightarrow> string list outcome \<times> awsProvider0" where
  "aws0_GetVMList v order =
     (case Mutex_Lock (aws0_vmMapLock v) of
        None \<Rightarrow> (Blocked, v)
      | Some l1 \<Rightarrow>
     (let v1 = v\<lparr>aws0_vmMapLock := l1\<rparr>;
          ret = range_keys (aws0_vmMap v1) order in
      case Mutex_Unlock (aws0_vmMapLock v1) of
        None \<Rightarrow> (Panic UnlockOfUnlockedMutex, v1)
      | Some l2 \<Rightarrow>
     (let v2 = v1\<lparr>aws0_vmMapLock := l2\<rparr> in
      case Mutex_Unlock (aws0_vmMapLock v2) of
        None \<Rightarrow> (Panic UnlockOfUnlockedMutex, v2)
      | Some l3 \<Rightarrow> (Return ret, v2\<lparr>aws0_vmMapLock := l3\<rparr>))))"

section \<open>The local-hypervisor provider (provider/virtualbox/virtualbox.go)\<close>

record vbox_VM =
  vb_Src :: string
  vb_BackingDevice :: string
  vb_Name :: string

record vbox_podData = PodData +
  vbox_vm :: vbox_VM

record vboxProvider =
  vbox_netDevice :: string
  vbox_vmSrc :: string
  vbox_vmMap :: "string \<rightharpoonup> vbox_podData"
  vbox_vmMapLock :: Mutex

definition vbox_getPodData ::
  "vboxProvider \<Rightarrow> string \<Rightarrow> (error + vbox_podData) outcome \<times> vboxProvider" where
  "vbox_getPodData v sid =
     (case Mutex_Lock (vbox_vmMapLock v) of
        None \<Rightarrow> (Blocked, v)
      | Some l1 \<Rightarrow>
     (let v1 = v\<lparr>vbox_vmMapLock := l1\<rparr>;
          r = (case vbox_vmMap v1 sid of
                 None \<Rightarrow> Inl (Errorf ''Invalid PodSandboxId'' sid)
               | Some podData \<Rightarrow> Inr podData) in
      case Mutex_Unlock (vbox_vmMapLock v1) of
        None \<Rightarrow> (Panic UnlockOfUnlockedMutex, v1)
      | Some l2 \<Rightarrow> (Return r, v1\<lparr>vbox_vmMapLock := l2\<rparr>)))"

definition vbox_return_Unlock ::
  "vboxProvider \<Rightarrow> vbox_VM event list \<Rightarrow> 'r
     \<Rightarrow> 'r outcome \<times> vboxProvider \<times> vbox_VM event list" where
  "vbox_return_Unlock v evs r =
     (case Mutex_Unlock (vbox_vmMapLock v) of
        None \<Rightarrow> (Panic UnlockOfUnlockedMutex, v, evs)
      | Some l \<Rightarrow> (Return r, v\<lparr>vbox_vmMapLock := l\<rparr>, evs))"

definition vbox_RunPodSandbox ::
  "vboxProvider \<Rightarrow> vbox_VM backend \<Rightarrow> RunPodSandboxRequest
     \<Rightarrow> RunPodSandboxResponse goret outcome \<times> vboxProvider \<times> vbox_VM event list" where
  "vbox_RunPodSandbox v be req =
     (let vm0 = \<lparr>vb_Src = vbox_vmSrc v, vb_BackingDevice = vbox_netDevice v, vb_Name = []\<rparr>;
          evs1 = [EvProvision vm0] in
      case be_Provision be vm0 of
        Inl err \<Rightarrow> (Return (None, Some (Wrap ''Failed to Provision'' err)), v, evs1)
      | Inr vm \<Rightarrow>
     (let evs2 = evs1 @ [EvGetIPs vm] in
      case be_GetIPs be vm of
        Inl err \<Rightarrow> (Return (None, Some (Wrap ''CreatePodSandbox: error in GetIPs()'' err)), v, evs2)
      | Inr ips \<Rightarrow>
     (case ips of
        [] \<Rightarrow> (Panic IndexOutOfRange, v, evs2)
      | ip # _ \<Rightarrow>
     (let evs3 = evs2 @ [EvCreateClient ip] in
      case be_CreateClient be ip of
        (_, Some err) \<Rightarrow>
          (Return (None, Some (Wrap ''CreatePodSandbox: error in createClient()'' err)), v, evs3)
      | (client, None) \<Rightarrow>
     (let name = vb_Name vm in
      case Mutex_Lock (vbox_vmMapLock v) of
        None \<Rightarrow> (Blocked, v, evs3)
      | Some l1 \<Rightarrow>
     (let v1 = v\<lparr>vbox_vmMapLock := l1\<rparr> in
      case rq_Config req of
        None \<Rightarrow> (Panic NilDereference, v1, evs3)
      | Some config \<Rightarrow>
          let podData =
                \<lparr>pd_Id = name,
                 pd_Metadata = cfg_Metadata config,
                 pd_Annotations = cfg_Annotations config,
                 pd_CreatedAt = be_NowUnix be,
                 pd_Ip = ip,
                 pd_Labels = cfg_Labels config,
                 pd_Linux = cfg_Linux config,
                 pd_StateLock = False,
                 pd_Client = client,
                 pd_PodState = PodSandBoxState_READY,
                 vbox_vm = vm\<rparr>;
              v2 = v1\<lparr>vbox_vmMap := (vbox_vmMap v1)(name \<mapsto> podData)\<rparr>;
              resp = \<lparr>rp_PodSandboxId = Some name\<rparr>
          in vbox_return_Unlock v2 (evs3 @ [EvMapInsert name]) (Some resp, None)))))))"

definition vbox_StopPodSandbox ::
  "vboxProvider \<Rightarrow> string
     \<Rightarrow> StopPodSandboxResponse goret outcome \<times> vboxProvider \<times> vbox_VM event list" where
  "vbox_StopPodSandbox v sid =
     (case vbox_getPodData v sid of
        (Blocked, v1) \<Rightarrow> (Blocked, v1, [])
      | (Panic c, v1) \<Rightarrow> (Panic c, v1, [])
      | (Return (Inl err), v1) \<Rightarrow> (Return (None, Some (Wrap ''StopPodSandbox'' err)), v1, [])
      | (Return (Inr podData), v1) \<Rightarrow>
          (case StopPod podData of
             (Blocked, pd1) \<Rightarrow> (Blocked, v1\<lparr>vbox_vmMap := (vbox_vmMap v1)(sid \<mapsto> pd1)\<rparr>, [])
           | (Panic c, pd1) \<Rightarrow> (Panic c, v1\<lparr>vbox_vmMap := (vbox_vmMap v1)(sid \<mapsto> pd1)\<rparr>, [])
           | (Return err, pd1) \<Rightarrow>
               (Return (Some StopPodSandboxResponse, None),
                v1\<lparr>vbox_vmMap := (vbox_vmMap v1)(sid \<mapsto> pd1)\<rparr>, [])))"

definition vbox_RemovePodSandbox ::
  "vboxProvider \<Rightarrow> vbox_VM backend \<Rightarrow> string
     \<Rightarrow> RemovePodSandboxResponse goret outcome \<times> vboxProvider \<times> vbox_VM event list" where
  "vbox_RemovePodSandbox v be sid =
     (case vbox_getPodData v sid of
        (Blocked, v1) \<Rightarrow> (Blocked, v1, [])
      | (Panic c, v1) \<Rightarrow> (Panic c, v1, [])
      | (Return (Inl err), v1) \<Rightarrow> (Return (None, Some (Wrap ''RemovePodSandbox'' err)), v1, [])
      | (Return (Inr podData), v1) \<Rightarrow>
     (let evs1 = [EvDestroy (vbox_vm podData)] in
      case be_Destroy be (vbox_vm podData) of
        Some err \<Rightarrow> (Return (None, Some (Wrap ''RemovePodSandbox'' err)), v1, evs1)
      | None \<Rightarrow>
     (let (err, evs_close) = RemovePod podData;
          evs2 = evs1 @ evs_close in
      case Mutex_Lock (vbox_vmMapLock v1) of
        None \<Rightarrow> (Blocked, v1, evs2)
      | Some l1 \<Rightarrow>
     (let v2 = v1\<lparr>vbox_vmMapLock := l1\<rparr>;
          v3 = v2\<lparr>vbox_vmMap := (vbox_vmMap v2)(sid := None)\<rparr> in
      vbox_return_Unlock v3 (evs2 @ [EvMapDelete sid]) (Some RemovePodSandboxResponse, None)))))"

text \<open>Returning through the deferred unlock of a record's state lock.\<close>

definition vbox_return_StateUnlock ::
  "vboxProvider \<Rightarrow> string \<Rightarrow> vbox_podData \<Rightarrow> vbox_VM event list \<Rightarrow> 'r
     \<Rightarrow> 'r outcome \<times> vboxProvider \<times> vbox_VM event list" where
  "vbox_return_StateUnlock v sid podData evs r =
     (case Mutex_Unlock (pd_StateLock podData) of
        None \<Rightarrow>
          (Panic UnlockOfUnlockedMutex, v\<lparr>vbox_vmMap := (vbox_vmMap v)(sid \<mapsto> podData)\<rparr>, evs)
      | Some s \<Rightarrow>
          (Return r, v\<lparr>vbox_vmMap := (vbox_vmMap v)(sid \<mapsto> podData\<lparr>pd_StateLock := s\<rparr>)\<rparr>, evs))"

definition vbox_PodSandboxStatus ::
  "vboxProvider \<Rightarrow> vbox_VM backend \<Rightarrow> string
     \<Rightarrow> PodSandboxStatusResponse goret outcome \<times> vboxProvider \<times> vbox_VM event list" where
  "vbox_PodSandboxStatus v be sid =
     (case vbox_getPodData v sid of
        (Blocked, v1) \<Rightarrow> (Blocked, v1, [])
      | (Panic c, v1) \<Rightarrow> (Panic c, v1, [])
      | (Return (Inl err), v1) \<Rightarrow> (Return (None, Some (Wrap ''PodSandboxStatus'' err)), v1, [])
      | (Return (Inr podData), v1) \<Rightarrow>
     (case Mutex_Lock (pd_StateLock podData) of
        None \<Rightarrow> (Blocked, v1, [])
      | Some s1 \<Rightarrow>
     (let pd1 = podData\<lparr>pd_StateLock := s1\<rparr>;
          v2 = v1\<lparr>vbox_vmMap := (vbox_vmMap v1)(sid \<mapsto> pd1)\<rparr> in
      case PodStatus2 pd1 of
        Blocked \<Rightarrow> (Blocked, v2, [])
      | Panic c \<Rightarrow> (Panic c, v2, [])
      | Return (_, Some err) \<Rightarrow>
          vbox_return_StateUnlock v1 sid pd1 [] (None, Some (Wrap ''PodSandboxStatus'' err))
      | Return (None, None) \<Rightarrow> (Panic NilDereference, v2, [])
      | Return (Some status, None) \<Rightarrow>
     (let evs = [EvGetState (vbox_vm pd1)] in
      case be_GetState be (vbox_vm pd1) of
        Inl err \<Rightarrow>
          vbox_return_StateUnlock v1 sid pd1 evs
            (None, Some (Wrap ''PodSandboxStatus: error in GetState()'' err))
      | Inr vmState \<Rightarrow>
          let state = (if vmState \<noteq> VMRunning then PodSandBoxState_NOTREADY else pd_PodState pd1);
              status1 = status\<lparr>st_State := Some state\<rparr>
          in vbox_return_StateUnlock v1 sid pd1 evs (Some \<lparr>sr_Status = Some status1\<rparr>, None)))))"

fun vbox_ListPodSandbox_loop ::
  "vbox_VM backend \<Rightarrow> PodSandboxFilter option \<Rightarrow> string list \<Rightarrow> vboxProvider
     \<Rightarrow> PodSandbox list \<Rightarrow> vbox_VM event list \<Rightarrow> PodSandbox list \<times> vbox_VM event list" where
  "vbox_ListPodSandbox_loop be flt [] v sandboxes evs = (sandboxes, evs)"
| "vbox_ListPodSandbox_loop be flt (sid # ids) v sandboxes evs =
     (case vbox_vmMap v sid of
        None \<Rightarrow> vbox_ListPodSandbox_loop be flt ids v sandboxes evs
      | Some podData \<Rightarrow>
     (let evs1 = evs @ [EvGetState (vbox_vm podData)] in
      case be_GetState be (vbox_vm podData) of
        Inl err \<Rightarrow> vbox_ListPodSandbox_loop be flt ids v sandboxes evs1
      | Inr vmState \<Rightarrow>
     (let podState = (if vmState \<noteq> VMRunning then PodSandBoxState_NOTREADY
                      else pd_PodState podData) in
      if flt \<noteq> None \<and> GetId flt \<noteq> [] \<and> GetId flt \<noteq> sid then
        vbox_ListPodSandbox_loop be flt ids v sandboxes evs1
      else if flt \<noteq> None \<and> GetState flt \<noteq> podState then
        vbox_ListPodSandbox_loop be flt ids v sandboxes evs1
      else if flt \<noteq> None \<and> fst (FilterByLabels podData (GetLabelSelector flt)) then
        vbox_ListPodSandbox_loop be flt ids v sandboxes evs1
      else
        vbox_ListPodSandbox_loop be flt ids v
          (sandboxes @ [(GetSandbox2 podData)\<lparr>sb_State := Some podState\<rparr>]) evs1)))"

definition vbox_ListPodSandbox ::
  "vboxProvider \<Rightarrow> vbox_VM backend \<Rightarrow> string list \<Rightarrow> PodSandboxFilter option
     \<Rightarrow> ListPodSandboxResponse goret outcome \<times> vboxProvider \<times> vbox_VM event list" where
  "vbox_ListPodSandbox v be order flt =
     (case Mutex_Lock (vbox_vmMapLock v) of
        None \<Rightarrow> (Blocked, v, [])
      | Some l1 \<Rightarrow>
          let v1 = v\<lparr>vbox_vmMapLock := l1\<rparr>;
              (sandboxes, evs) = vbox_ListPodSandbox_loop be flt order v1 [] []
          in vbox_return_Unlock v1 evs (Some \<lparr>lr_Items = sandboxes\<rparr>, None))"

definition vbox_GetClient ::
  "vboxProvider \<Rightarrow> string \<Rightarrow> (error + Client option) outcome \<times> vboxProvider" where
  "vbox_GetClient v podName =
     (case vbox_getPodData v podName of
        (Blocked, v1) \<Rightarrow> (Blocked, v1)
      | (Panic c, v1) \<Rightarrow> (Panic c, v1)
      | (Return (Inl err), v1) \<Rightarrow> (Return (Inl (Errorf ''unknown pod name'' podName)), v1)
      | (Return (Inr podData), v1) \<Rightarrow> (Return (Inr (pd_Client podData)), v1))"

definition vbox_GetVMList ::
  "vboxProvider \<Rightarrow> string list \<Rightarrow> string list outcome \<times> vboxProvider" where
  "vbox_GetVMList v order =
     (case Mutex_Lock (vbox_vmMapLock v) of
        None \<Rightarrow> (Blocked, v)
      | Some l1 \<Rightarrow>
     (let v1 = v\<lparr>vbox_vmMapLock := l1\<rparr>;
          ret = range_keys (vbox_vmMap v1) order in
      case Mutex_Unlock (vbox_vmMapLock v1) of
        None \<Rightarrow> (Panic UnlockOfUnlockedMutex, v1)
      | Some l2 \<Rightarrow> (Return ret, v1\<lparr>vbox_vmMapLock := l2\<rparr>)))"

section \<open>The request router (the Manager)\<close>

text \<open>
  The container requests and responses of the runtime API, and the agent connection's
  methods.  An agent is reached through the client pointer of a sandbox record; what it
  answers is outside the repository, so it is a parameter: a function from the pointer and
  the request to the pair the call returns.
\<close>

record StartContainerRequest =
  sc_ContainerId :: "string option"

record StopContainerRequest =
  tc_ContainerId :: "string option"
  tc_Timeout :: "int option"

record RemoveContainerRequest =
  rc_ContainerId :: "string option"

record ContainerStatusRequest =
  cs_ContainerId :: "string option"

datatype StartContainerResponse = StartContainerResponse

datatype StopContainerResponse = StopContainerResponse

datatype RemoveContainerResponse = RemoveContainerResponse

record ContainerStatus =
  ct_Id :: "string option"
  ct_State :: "nat option"
  ct_ExitCode :: "int option"

record ContainerStatusResponse =
  cr_Status :: "ContainerStatus option"

definition GetContainerId :: "string option \<Rightarrow> string" where
  "GetContainerId c = (case c of None \<Rightarrow> [] | Some i \<Rightarrow> i)"

record agent =
  ag_StartContainer :: "Client option \<Rightarrow> StartContainerRequest \<Rightarrow> StartContainerResponse goret"
  ag_StopContainer :: "Client option \<Rightarrow> StopContainerRequest \<Rightarrow> StopContainerResponse goret"
  ag_RemoveContainer :: "Client option \<Rightarrow> RemoveContainerRequest \<Rightarrow> RemoveContainerResponse goret"
  ag_ContainerStatus :: "Client option \<Rightarrow> ContainerStatusRequest \<Rightarrow> ContainerStatusResponse goret"

datatype agent_call =
    CallStartContainer "Client option" StartContainerRequest
  | CallStopContainer "Client option" StopContainerRequest
  | CallRemoveContainer "Client option" RemoveContainerRequest
  | CallContainerStatus "Client option" ContainerStatusRequest

text \<open>
  The Manager holds its lifecycle provider behind an interface; the implementations among
  the sources are the two providers above.  Its other fields are not read by the container
  handlers.
\<close>

datatype PodProvider = AwsProvider awsProvider | VboxProvider vboxProvider

record Manager =
  mg_podProvider :: PodProvider

text \<open>
  Modelled from the spec: the Manager's \<^verbatim>\<open>getClient\<close> helper is not among the sources.
  The spec has the router resolve the agent connection for a sandbox id and fail if the
  sandbox is unknown; the providers offer exactly this as \<^verbatim>\<open>GetClient\<close>, to which the
  helper is taken to delegate.
\<close>

definition getClient ::
  "Manager \<Rightarrow> string \<Rightarrow> (error + Client option) outcome \<times> Manager" where
  "getClient m podName =
     (case mg_podProvider m of
        AwsProvider v \<Rightarrow>
          (case aws_GetClient v podName of
             (r, v1, evs) \<Rightarrow> (r, m\<lparr>mg_podProvider := AwsProvider v1\<rparr>))
      | VboxProvider v \<Rightarrow>
          (case vbox_GetClient v podName of
             (r, v1) \<Rightarrow> (r, m\<lparr>mg_podProvider := VboxProvider v1\<rparr>)))"

definition StartContainer ::
  "Manager \<Rightarrow> agent \<Rightarrow> StartContainerRequest
     \<Rightarrow> StartContainerResponse goret outcome \<times> Manager \<times> agent_call list" where
  "StartContainer m ag req =
     (case strings_Split (GetContainerId (sc_ContainerId req)) CHR '':'' of
        [] \<Rightarrow> (Panic IndexOutOfRange, m, [])
      | podId # _ \<Rightarrow>
          (case getClient m podId of
             (Blocked, m1) \<Rightarrow> (Blocked, m1, [])
           | (Panic c, m1) \<Rightarrow> (Panic c, m1, [])
           | (Return (Inl err), m1) \<Rightarrow>
               (Return (None, Some (Wrap (''Failed to get client for sandbox '' @ podId) err)),
                m1, [])
           | (Return (Inr client), m1) \<Rightarrow>
               (Return (ag_StartContainer ag client req), m1, [CallStartContainer client req])))"

definition StopContainer ::
  "Manager \<Rightarrow> agent \<Rightarrow> StopContainerRequest
     \<Rightarrow> StopContainerResponse goret outcome \<times> Manager \<times> agent_call list" where
  "StopContainer m ag req =
     (case strings_Split (GetContainerId (tc_ContainerId req)) CHR '':'' of
        [] \<Rightarrow> (Panic IndexOutOfRange, m, [])
      | podId # _ \<Rightarrow>
          (case getClient m podId of
             (Blocked, m1) \<Rightarrow> (Blocked, m1, [])
           | (Panic c, m1) \<Rightarrow> (Panic c, m1, [])
           | (Return (Inl err), m1) \<Rightarrow>
               (Return (None, Some (Wrap (''Failed to get client for sandbox '' @ podId) err)),
                m1, [])
           | (Return (Inr client), m1) \<Rightarrow>
               (Return (ag_StopContainer ag client req), m1, [CallStopContainer client req])))"

definition RemoveContainer ::
  "Manager \<Rightarrow> agent \<Rightarrow> RemoveContainerRequest
     \<Rightarrow> RemoveContainerResponse goret outcome \<times> Manager \<times> agent_call list" where
  "RemoveContainer m ag req =
     (case strings_Split (GetContainerId (rc_ContainerId req)) CHR '':'' of
        [] \<Rightarrow> (Panic IndexOutOfRange, m, [])
      | podId # _ \<Rightarrow>
          (case getClient m podId of
             (Blocked, m1) \<Rightarrow> (Blocked, m1, [])
           | (Panic c, m1) \<Rightarrow> (Panic c, m1, [])
           | (Return (Inl err), m1) \<Rightarrow>
               (Return (None, Some (Wrap (''Failed to get client for sandbox '' @ podId) err)),
                m1, [])
           | (Return (Inr client), m1) \<Rightarrow>
               (Return (ag_RemoveContainer ag client req), m1, [CallRemoveContainer client req])))"

definition ContainerStatus ::
  "Manager \<Rightarrow> agent \<Rightarrow> ContainerStatusRequest
     \<Rightarrow> ContainerStatusResponse goret outcome \<times> Manager \<times> agent_call list" where
  "ContainerStatus m ag req =
     (case strings_Split (GetContainerId (cs_ContainerId req)) CHR '':'' of
        [] \<Rightarrow> (Panic IndexOutOfRange, m, [])
      | podId # _ \<Rightarrow>
          (case getClient m podId of
             (Blocked, m1) \<Rightarrow> (Blocked, m1, [])
           | (Panic c, m1) \<Rightarrow> (Panic c, m1, [])
           | (Return (Inl err), m1) \<Rightarrow>
               (Return (None, Some (Errorf ''failed to get client for sandbox'' podId)), m1, [])
           | (Return (Inr client), m1) \<Rightarrow>
               (Return (ag_ContainerStatus ag client req), m1, [CallContainerStatus client req])))"

section \<open>Auxiliary notions for stating the properties\<close>

text \<open>
  Status and \<^verbatim>\<open>filter\<close> of the cloud provider begin alike: the cached VM state of the
  record is refreshed by \<open>updateVMState\<close>, and the record's sandbox state is set to
  \<open>NOTREADY\<close> when the VM state so obtained is not \<open>running\<close>.  \<open>aws_examine\<close> is the
  record after these two steps and \<open>aws_queries\<close> the backend calls made by them.
\<close>

definition aws_examine :: "aws_VM backend \<Rightarrow> aws_podData \<Rightarrow> aws_podData" where
  "aws_examine be pd =
     (case updateVMState be pd of
        (vmState, pd2, evs) \<Rightarrow>
          if vmState \<noteq> VMRunning then pd2\<lparr>pd_PodState := PodSandBoxState_NOTREADY\<rparr> else pd2)"

definition aws_queries :: "aws_VM backend \<Rightarrow> aws_podData \<Rightarrow> aws_VM event list" where
  "aws_queries be pd = snd (snd (updateVMState be pd))"

text \<open>
  The client pointer a provider's directory holds for a sandbox id, and whether the
  directory lock of a provider can be taken for reading.
\<close>

definition provider_lookup :: "PodProvider \<Rightarrow> string \<Rightarrow> Client option option" where
  "provider_lookup p sid =
     (case p of
        AwsProvider v \<Rightarrow> map_option pd_Client (aws_vmMap v sid)
      | VboxProvider w \<Rightarrow> map_option pd_Client (vbox_vmMap w sid))"

definition provider_idle :: "PodProvider \<Rightarrow> bool" where
  "provider_idle p =
     (case p of
        AwsProvider v \<Rightarrow> \<not> rw_writer (aws_vmMapLock v)
      | VboxProvider w \<Rightarrow> \<not> vbox_vmMapLock w)"

text \<open>What List reports for a record as it stands after the examination.\<close>

definition aws_listed :: "PodSandboxFilter option \<Rightarrow> aws_podData option \<Rightarrow> PodSandbox option" where
  "aws_listed flt r =
     (case r of
        None \<Rightarrow> None
      | Some pd \<Rightarrow> if fst (Filter pd flt) then None else Some (GetSandbox pd))"

subsection \<open>Concrete states and collaborators used in the instances below\<close>

definition ex_unlocked :: RWMutex where
  "ex_unlocked = \<lparr>rw_writer = False, rw_readers = 0\<rparr>"

definition ex_config :: awsConfig where
  "ex_config = \<lparr>ac_Ami = ''ami-1'', ac_Region = ''us-west-2'', ac_SecurityGroup = ''sg'',
     ac_Vpc = ''vpc'', ac_Subnet = ''subnet'', ac_SshKey = ''key.pem''\<rparr>"

definition ex_linux :: LinuxPodSandboxConfig where
  "ex_linux = \<lparr>lx_CgroupParent = None, lx_NamespaceOptions = None\<rparr>"

definition ex_request :: RunPodSandboxRequest where
  "ex_request = \<lparr>rq_Config = Some \<lparr>cfg_Metadata = None, cfg_Labels = [''app'' \<mapsto> ''web''],
     cfg_Annotations = Map.empty, cfg_Linux = Some ex_linux\<rparr>\<rparr>"

definition ex_aws_vm :: aws_VM where
  "ex_aws_vm = \<lparr>vm_Name = '':'', vm_SSHPrivateKey = ''secret'', vm_InstanceID = ''i-1''\<rparr>"

definition ex_aws_pod :: aws_podData where
  "ex_aws_pod =
     \<lparr>pd_Id = ''i-1'', pd_Metadata = None, pd_Annotations = Map.empty, pd_CreatedAt = 0,
      pd_Ip = ''10.0.0.1'', pd_Labels = [''app'' \<mapsto> ''web''], pd_Linux = Some ex_linux,
      pd_StateLock = False, pd_Client = Some 1, pd_PodState = PodSandBoxState_READY,
      aws_vm = ex_aws_vm, aws_vmState = ''running'', aws_vmStateLastChecked = 0\<rparr>"

definition ex_aws_empty :: awsProvider where
  "ex_aws_empty = \<lparr>aws_vmMap = Map.empty, aws_vmMapLock = ex_unlocked, aws_config = ex_config\<rparr>"

definition ex_aws :: awsProvider where
  "ex_aws = \<lparr>aws_vmMap = [''i-1'' \<mapsto> ex_aws_pod], aws_vmMapLock = ex_unlocked,
     aws_config = ex_config\<rparr>"

definition ex_vbox_vm :: vbox_VM where
  "ex_vbox_vm = \<lparr>vb_Src = ''base.ova'', vb_BackingDevice = ''en0'', vb_Name = ''vm-1''\<rparr>"

definition ex_vbox_pod :: vbox_podData where
  "ex_vbox_pod =
     \<lparr>pd_Id = ''vm-1'', pd_Metadata = None, pd_Annotations = Map.empty, pd_CreatedAt = 0,
      pd_Ip = ''10.0.0.2'', pd_Labels = [''app'' \<mapsto> ''web''], pd_Linux = Some ex_linux,
      pd_StateLock = False, pd_Client = Some 2, pd_PodState = PodSandBoxState_READY,
      vbox_vm = ex_vbox_vm\<rparr>"

definition ex_vbox_empty :: vboxProvider where
  "ex_vbox_empty = \<lparr>vbox_netDevice = ''en0'', vbox_vmSrc = ''base.ova'', vbox_vmMap = Map.empty,
     vbox_vmMapLock = False\<rparr>"

definition ex_vbox :: vboxProvider where
  "ex_vbox = \<lparr>vbox_netDevice = ''en0'', vbox_vmSrc = ''base.ova'',
     vbox_vmMap = [''vm-1'' \<mapsto> ex_vbox_pod], vbox_vmMapLock = False\<rparr>"

text \<open>
  A backend on which every call succeeds: provisioning names the VM, one address is
  reported, the agent answers, and the VM is running.  The clock reads \<open>t\<close>.
\<close>

definition ex_aws_backend :: "int \<Rightarrow> aws_VM backend" where
  "ex_aws_backend t =
     \<lparr>be_ReadFile = (\<lambda>path. Inr ''secret''),
      be_Provision = (\<lambda>vm. Inr (vm\<lparr>vm_InstanceID := ''i-1''\<rparr>)),
      be_GetIPs = (\<lambda>vm. Inr [''10.0.0.1'']),
      be_CreateClient = (\<lambda>ip. (Some 1, None)),
      be_Destroy = (\<lambda>vm. None),
      be_GetState = (\<lambda>vm. Inr ''running''),
      be_NowUnix = t div 1000000000,
      be_NowCreated = t,
      be_NowCheck = (\<lambda>sid. t),
      be_NowStamp = (\<lambda>sid. t)\<rparr>"

definition ex_vbox_backend :: "int \<Rightarrow> vbox_VM backend" where
  "ex_vbox_backend t =
     \<lparr>be_ReadFile = (\<lambda>path. Inr ''secret''),
      be_Provision = (\<lambda>vm. Inr (vm\<lparr>vb_Name := ''vm-1''\<rparr>)),
      be_GetIPs = (\<lambda>vm. Inr [''10.0.0.2'']),
      be_CreateClient = (\<lambda>ip. (Some 2, None)),
      be_Destroy = (\<lambda>vm. None),
      be_GetState = (\<lambda>vm. Inr ''running''),
      be_NowUnix = t div 1000000000,
      be_NowCreated = t,
      be_NowCheck = (\<lambda>sid. t),
      be_NowStamp = (\<lambda>sid. t)\<rparr>"

definition ex_agent :: agent where
  "ex_agent =
     \<lparr>ag_StartContainer = (\<lambda>c req. (Some StartContainerResponse, None)),
      ag_StopContainer = (\<lambda>c req. (Some StopContainerResponse, None)),
      ag_RemoveContainer = (\<lambda>c req. (None, Some (External ''no such container''))),
      ag_ContainerStatus = (\<lambda>c req.
         (Some \<lparr>cr_Status = Some \<lparr>ct_Id = cs_ContainerId req, ct_State = Some 1,
                                   ct_ExitCode = None\<rparr>\<rparr>, None))\<rparr>"

section \<open>Properties\<close>

lemma strings_Split_nonempty: "strings_Split s sep \<noteq> []"
  by (induction s) (auto split: list.splits)

lemma strings_Split_single: "length (strings_Split s sep) = Suc 0 \<longleftrightarrow> sep \<notin> set s"
proof (induction s)
  case Nil
  show ?case by simp
next
  case (Cons c cs)
  show ?case
  proof (cases "c = sep")
    case True
    then show ?thesis using strings_Split_nonempty [of cs sep] by simp
  next
    case False
    then show ?thesis
      using Cons strings_Split_nonempty [of cs sep] by (auto split: list.splits)
  qed
qed


subsection \<open>Image provider\<close>

lemma ListImages_lookup:
  assumes "\<not> rw_writer (ip_lock p)"
  shows "ListImages p order \<lparr>lir_Filter = Some \<lparr>flt_Image = Some spec\<rparr>\<rparr> =
           (Return (Some \<lparr>lir_Images = (case imageMap p (spec_Image spec) of
                                               None \<Rightarrow> [] | Some img \<Rightarrow> [img])\<rparr>, None), p)"
  using assms
  by (simp add: ListImages_def RWMutex_RLock_def RWMutex_RUnlock_def)

text \<open>
  C9.  ImageStatus on a request that carries an image reference, served while no writer
  holds the provider's lock: the key looked up is the reference itself when it contains
  a colon and the reference followed by \<open>:latest\<close> when it does not; the provider
  (and so its directory) is returned as it was; the response carries the record stored
  under that key, and is empty when there is none.
\<close>

theorem ImageStatus_lookup:
  assumes "isr_Image req = Some spec"
    and "\<not> rw_writer (ip_lock p)"
  shows "fst (ImageStatus p order req) =
           Return (Some \<lparr>isp_Image =
                      imageMap p (if CHR '':'' \<in> set (spec_Image spec) then spec_Image spec
                                  else spec_Image spec @ '':latest'')\<rparr>, None)
         \<and> fst (snd (ImageStatus p order req)) = p"
  using assms
  by (simp add: ImageStatus_def Let_def ListImages_lookup strings_Split_single split: option.split)

theorem ImageStatus_lookup_witness:
  "fst (ImageStatus
          \<lparr>ip_lock = \<lparr>rw_writer = False, rw_readers = 0\<rparr>,
           imageMap = [''img:latest'' \<mapsto>
              \<lparr>img_Id = ''img'', img_RepoTags = [''img''], img_RepoDigests = [''img''],
               img_Size = 7\<rparr>]\<rparr>
          [''img:latest''] \<lparr>isr_Image = Some \<lparr>spec_Image = ''img''\<rparr>\<rparr>)
     = Return (Some \<lparr>isp_Image = Some
          \<lparr>img_Id = ''img'', img_RepoTags = [''img''], img_RepoDigests = [''img''],
           img_Size = 7\<rparr>\<rparr>, None)"
  using ImageStatus_lookup
    [of "\<lparr>isr_Image = Some \<lparr>spec_Image = ''img''\<rparr>\<rparr>" "\<lparr>spec_Image = ''img''\<rparr>"
        "\<lparr>ip_lock = \<lparr>rw_writer = False, rw_readers = 0\<rparr>,
          imageMap = [''img:latest'' \<mapsto>
             \<lparr>img_Id = ''img'', img_RepoTags = [''img''], img_RepoDigests = [''img''],
              img_Size = 7\<rparr>]\<rparr>"
        "[''img:latest'']"]
  by simp

text \<open>
  C10.  The request object after ImageStatus: when the reference has no colon its
  reference field holds the reference followed by \<open>:latest\<close>; when it has one the
  object is as the caller passed it.  This holds whatever the call's outcome.
\<close>

theorem ImageStatus_mutates_request:
  assumes "isr_Image req = Some spec"
  shows "snd (snd (ImageStatus p order req)) =
           (if CHR '':'' \<in> set (spec_Image spec) then req
            else req\<lparr>isr_Image := Some (spec\<lparr>spec_Image := spec_Image spec @ '':latest''\<rparr>)\<rparr>)"
  using assms
  by (simp add: ImageStatus_def Let_def strings_Split_single
           split: prod.split outcome.split option.split list.split)

theorem ImageStatus_mutates_request_witness:
  "snd (snd (ImageStatus \<lparr>ip_lock = \<lparr>rw_writer = False, rw_readers = 0\<rparr>, imageMap = Map.empty\<rparr>
                [] \<lparr>isr_Image = Some \<lparr>spec_Image = ''img''\<rparr>\<rparr>))
     = \<lparr>isr_Image = Some \<lparr>spec_Image = ''img:latest''\<rparr>\<rparr>
   \<and> \<lparr>isr_Image = Some \<lparr>spec_Image = ''img:latest''\<rparr>\<rparr>
       \<noteq> \<lparr>isr_Image = Some \<lparr>spec_Image = ''img''\<rparr>\<rparr>"
  using ImageStatus_mutates_request
    [of "\<lparr>isr_Image = Some \<lparr>spec_Image = ''img''\<rparr>\<rparr>" "\<lparr>spec_Image = ''img''\<rparr>"
        "\<lparr>ip_lock = \<lparr>rw_writer = False, rw_readers = 0\<rparr>, imageMap = Map.empty\<rparr>" "[]"]
  by simp

subsection \<open>Locks\<close>

lemmas lock_defs = Mutex_Lock_def Mutex_Unlock_def RWMutex_Lock_def RWMutex_Unlock_def
  RWMutex_RLock_def RWMutex_RUnlock_def

lemmas ex_defs = ex_agent_def ex_unlocked_def ex_config_def ex_linux_def ex_request_def ex_aws_vm_def
  ex_aws_pod_def ex_aws_empty_def ex_aws_def ex_vbox_vm_def ex_vbox_pod_def ex_vbox_empty_def
  ex_vbox_def ex_aws_backend_def ex_vbox_backend_def

lemma StateLock_unlocked [simp]:
  "\<not> pd_StateLock (p::'a PodData_scheme) \<Longrightarrow> p\<lparr>pd_StateLock := False\<rparr> = p"
  by (cases p) simp

lemma vbox_getPodData_free:
  assumes "\<not> vbox_vmMapLock v"
  shows "vbox_getPodData v sid =
    (Return (case vbox_vmMap v sid of
               None \<Rightarrow> Inl (Errorf ''Invalid PodSandboxId'' sid)
             | Some pd \<Rightarrow> Inr pd), v)"
  using assms
  by (simp add: vbox_getPodData_def lock_defs Let_def)

subsection \<open>Unknown sandbox identifiers\<close>

lemma aws_Stop_missing:
  assumes "aws_vmMap v sid = None" and "\<not> rw_writer (aws_vmMapLock v)"
  shows "aws_StopPodSandbox v sid =
    (Return (None, Some (Wrap ''StopPodSandbox'' (Errorf ''Invalid PodSandboxId'' sid))), v, [])"
  using assms
  by (simp add: aws_StopPodSandbox_def aws_getPodData_def aws_return_RUnlock_def lock_defs)

lemma aws_Status_missing:
  assumes "aws_vmMap v sid = None" and "\<not> rw_writer (aws_vmMapLock v)"
  shows "aws_PodSandboxStatus v be sid =
    (Return (None, Some (Wrap ''PodSandboxStatus'' (Errorf ''Invalid PodSandboxId'' sid))), v, [])"
  using assms
  by (simp add: aws_PodSandboxStatus_def aws_getPodData_def aws_return_RUnlock_def lock_defs)

lemma aws_Remove_missing:
  assumes "aws_vmMap v sid = None" and "\<not> rw_writer (aws_vmMapLock v)"
    and "rw_readers (aws_vmMapLock v) = 0"
  shows "aws_RemovePodSandbox v be sid =
    (Return (None, Some (Wrap ''RemovePodSandbox'' (Errorf ''Invalid PodSandboxId'' sid))), v, [])"
  using assms
  by (simp add: aws_RemovePodSandbox_def aws_getPodData_def aws_return_Unlock_def lock_defs)

lemma vbox_Stop_missing:
  assumes "vbox_vmMap w sid = None" and "\<not> vbox_vmMapLock w"
  shows "vbox_StopPodSandbox w sid =
    (Return (None, Some (Wrap ''StopPodSandbox'' (Errorf ''Invalid PodSandboxId'' sid))), w, [])"
  using assms by (simp add: vbox_StopPodSandbox_def vbox_getPodData_free)

lemma vbox_Remove_missing:
  assumes "vbox_vmMap w sid = None" and "\<not> vbox_vmMapLock w"
  shows "vbox_RemovePodSandbox w be sid =
    (Return (None, Some (Wrap ''RemovePodSandbox'' (Errorf ''Invalid PodSandboxId'' sid))), w, [])"
  using assms by (simp add: vbox_RemovePodSandbox_def vbox_getPodData_free)

lemma vbox_Status_missing:
  assumes "vbox_vmMap w sid = None" and "\<not> vbox_vmMapLock w"
  shows "vbox_PodSandboxStatus w be sid =
    (Return (None, Some (Wrap ''PodSandboxStatus'' (Errorf ''Invalid PodSandboxId'' sid))), w, [])"
  using assms by (simp add: vbox_PodSandboxStatus_def vbox_getPodData_free)

text \<open>
  C7.  Let \<open>sid\<close> be absent from the directory of a cloud provider and of a
  local-hypervisor provider, neither of whose directory locks is held by another request.
  Then Stop, Remove and Status of \<open>sid\<close> each return no response and the error
  \<open>Invalid PodSandboxId\<close> (prefixed with the operation's name), make no backend call, and
  return the provider exactly as it was: the directory, every record in it and the locks.
\<close>

theorem unknown_id_not_found:
  assumes "aws_vmMap v sid = None"
    and "\<not> rw_writer (aws_vmMapLock v)" and "rw_readers (aws_vmMapLock v) = 0"
    and "vbox_vmMap w sid = None" and "\<not> vbox_vmMapLock w"
  shows "aws_StopPodSandbox v sid =
           (Return (None, Some (Wrap ''StopPodSandbox'' (Errorf ''Invalid PodSandboxId'' sid))), v, [])
       \<and> aws_RemovePodSandbox v be sid =
           (Return (None, Some (Wrap ''RemovePodSandbox'' (Errorf ''Invalid PodSandboxId'' sid))), v, [])
       \<and> aws_PodSandboxStatus v be sid =
           (Return (None, Some (Wrap ''PodSandboxStatus'' (Errorf ''Invalid PodSandboxId'' sid))), v, [])
       \<and> vbox_StopPodSandbox w sid =
           (Return (None, Some (Wrap ''StopPodSandbox'' (Errorf ''Invalid PodSandboxId'' sid))), w, [])
       \<and> vbox_RemovePodSandbox w be' sid =
           (Return (None, Some (Wrap ''RemovePodSandbox'' (Errorf ''Invalid PodSandboxId'' sid))), w, [])
       \<and> vbox_PodSandboxStatus w be' sid =
           (Return (None, Some (Wrap ''PodSandboxStatus'' (Errorf ''Invalid PodSandboxId'' sid))), w, [])"
  using assms
  by (simp add: aws_Stop_missing aws_Remove_missing aws_Status_missing
      vbox_Stop_missing vbox_Remove_missing vbox_Status_missing)

theorem unknown_id_not_found_witness:
  "aws_StopPodSandbox ex_aws ''i-2'' =
     (Return (None, Some (Wrap ''StopPodSandbox'' (Errorf ''Invalid PodSandboxId'' ''i-2''))),
      ex_aws, [])
   \<and> aws_RemovePodSandbox ex_aws (ex_aws_backend 0) ''i-2'' =
     (Return (None, Some (Wrap ''RemovePodSandbox'' (Errorf ''Invalid PodSandboxId'' ''i-2''))),
      ex_aws, [])
   \<and> vbox_PodSandboxStatus ex_vbox (ex_vbox_backend 0) ''i-2'' =
     (Return (None, Some (Wrap ''PodSandboxStatus'' (Errorf ''Invalid PodSandboxId'' ''i-2''))),
      ex_vbox, [])"
proof -
  have "aws_vmMap ex_aws ''i-2'' = None" "\<not> rw_writer (aws_vmMapLock ex_aws)"
    "rw_readers (aws_vmMapLock ex_aws) = 0" "vbox_vmMap ex_vbox ''i-2'' = None"
    "\<not> vbox_vmMapLock ex_vbox"
    by (simp_all add: ex_aws_def ex_vbox_def ex_unlocked_def)
  from unknown_id_not_found [OF this, of "ex_aws_backend 0" "ex_vbox_backend 0"]
  show ?thesis by simp
qed

subsection \<open>GetVMList in the earlier revision\<close>

text \<open>
  C8.  GetVMList of the earlier revision of the cloud provider, called while nobody holds
  the directory lock, does not return the list of sandbox ids: the explicit unlock frees
  the mutex, and the deferred unlock that runs at the return finds it unlocked, which is
  a fatal error of the runtime.  This holds whatever the directory contains.
\<close>

theorem aws0_GetVMList_crashes:
  assumes "\<not> aws0_vmMapLock v"
  shows "fst (aws0_GetVMList v order) = Panic UnlockOfUnlockedMutex"
  using assms by (simp add: aws0_GetVMList_def lock_defs Let_def)

theorem aws0_GetVMList_crashes_witness:
  "fst (aws0_GetVMList
          \<lparr>aws0_vmMap = [''i-1'' \<mapsto> ex_aws_pod], aws0_vmMapLock = False, aws0_config = ex_config\<rparr>
          [''i-1'']) = Panic UnlockOfUnlockedMutex"
  using aws0_GetVMList_crashes
    [of "\<lparr>aws0_vmMap = [''i-1'' \<mapsto> ex_aws_pod], aws0_vmMapLock = False, aws0_config = ex_config\<rparr>"
        "[''i-1'']"]
  by simp

subsection \<open>Removal and status of a known sandbox\<close>

lemma aws_Remove_ok:
  assumes "aws_vmMap v sid = Some pd"
    and "\<not> rw_writer (aws_vmMapLock v)" and "rw_readers (aws_vmMapLock v) = 0"
    and "\<not> pd_StateLock pd" and "be_Destroy be (aws_vm pd) = None"
  shows "aws_RemovePodSandbox v be sid =
    (Return (Some RemovePodSandboxResponse, None),
     v\<lparr>aws_vmMap := (aws_vmMap v)(sid := None)\<rparr>,
     [EvDestroy (aws_vm pd), EvClose (pd_Client pd), EvMapDelete sid])"
  using assms
  by (simp add: aws_RemovePodSandbox_def aws_getPodData_def aws_return_Unlock_def lock_defs
      RemovePod_def Let_def)

lemma aws_Remove_fail:
  assumes "aws_vmMap v sid = Some pd"
    and "\<not> rw_writer (aws_vmMapLock v)" and "rw_readers (aws_vmMapLock v) = 0"
    and "\<not> pd_StateLock pd" and "be_Destroy be (aws_vm pd) = Some err"
  shows "aws_RemovePodSandbox v be sid =
    (Return (None, Some (Wrap ''RemovePodSandbox'' err)), v, [EvDestroy (aws_vm pd)])"
  using assms
  by (simp add: aws_RemovePodSandbox_def aws_getPodData_def aws_return_Unlock_def lock_defs
      Let_def map_upd_triv)

lemma vbox_Remove_ok:
  assumes "vbox_vmMap w sid = Some qd" and "\<not> vbox_vmMapLock w"
    and "be_Destroy be (vbox_vm qd) = None"
  shows "vbox_RemovePodSandbox w be sid =
    (Return (Some RemovePodSandboxResponse, None),
     w\<lparr>vbox_vmMap := (vbox_vmMap w)(sid := None)\<rparr>,
     [EvDestroy (vbox_vm qd), EvClose (pd_Client qd), EvMapDelete sid])"
  using assms
  by (simp add: vbox_RemovePodSandbox_def vbox_getPodData_free vbox_return_Unlock_def lock_defs
      RemovePod_def Let_def)

lemma vbox_Remove_fail:
  assumes "vbox_vmMap w sid = Some qd" and "\<not> vbox_vmMapLock w"
    and "be_Destroy be (vbox_vm qd) = Some err"
  shows "vbox_RemovePodSandbox w be sid =
    (Return (None, Some (Wrap ''RemovePodSandbox'' err)), w, [EvDestroy (vbox_vm qd)])"
  using assms
  by (simp add: vbox_RemovePodSandbox_def vbox_getPodData_free Let_def)

lemma vbox_Status_found:
  assumes "vbox_vmMap w sid = Some qd" and "\<not> vbox_vmMapLock w"
    and "\<not> pd_StateLock qd" and "pd_Linux qd = Some lx"
  shows "\<exists>st0. PodStatus2 qd = Return (Some st0, None) \<and>
    vbox_PodSandboxStatus w be sid =
      (case be_GetState be (vbox_vm qd) of
         Inl err \<Rightarrow> (Return (None, Some (Wrap ''PodSandboxStatus: error in GetState()'' err)),
                      w, [EvGetState (vbox_vm qd)])
       | Inr s \<Rightarrow> (Return (Some \<lparr>sr_Status = Some (st0\<lparr>st_State :=
                        Some (if s \<noteq> VMRunning then PodSandBoxState_NOTREADY
                              else pd_PodState qd)\<rparr>)\<rparr>, None),
                    w, [EvGetState (vbox_vm qd)]))"
  using assms
  by (simp add: vbox_PodSandboxStatus_def vbox_getPodData_free vbox_return_StateUnlock_def
      lock_defs PodStatus2_def Let_def map_upd_triv split: sum.splits)


lemma updateVMState_StateLock:
  "updateVMState be (pd\<lparr>pd_StateLock := b\<rparr>) =
     (case updateVMState be pd of (vs, pd2, evs) \<Rightarrow> (vs, pd2\<lparr>pd_StateLock := b\<rparr>, evs))"
  by (simp add: updateVMState_def Let_def split: sum.splits)

lemma updateVMState_frame:
  assumes "updateVMState be pd = (vs, pd2, evs)"
  shows "pd_Id pd2 = pd_Id pd" "pd_Linux pd2 = pd_Linux pd" "pd_StateLock pd2 = pd_StateLock pd"
    "pd_PodState pd2 = pd_PodState pd" "aws_vm pd2 = aws_vm pd" "pd_Labels pd2 = pd_Labels pd"
    "pd_Client pd2 = pd_Client pd"
  using assms by (auto simp: updateVMState_def Let_def split: sum.splits if_splits)

lemma aws_examine_frame:
  "pd_Id (aws_examine be pd) = pd_Id pd" "pd_Linux (aws_examine be pd) = pd_Linux pd"
  "pd_StateLock (aws_examine be pd) = pd_StateLock pd" "aws_vm (aws_examine be pd) = aws_vm pd"
  "pd_Labels (aws_examine be pd) = pd_Labels pd" "pd_Client (aws_examine be pd) = pd_Client pd"
  by (auto simp: aws_examine_def dest: updateVMState_frame split: prod.splits)


lemma PodStatus_Return:
  assumes "PodStatus p = Return st"
  shows "st_Id st = Some (pd_Id p)" "st_State st = Some (pd_PodState p)"
  using assms by (auto simp: PodStatus_def split: option.splits)

lemma aws_Status_found:
  assumes "aws_vmMap v sid = Some pd" and "\<not> rw_writer (aws_vmMapLock v)"
    and "\<not> pd_StateLock pd" and "pd_Linux pd = Some lx"
  shows "\<exists>st. PodStatus (aws_examine be pd) = Return st \<and>
     aws_PodSandboxStatus v be sid =
       (Return (Some \<lparr>sr_Status = Some st\<rparr>, None),
        v\<lparr>aws_vmMap := (aws_vmMap v)(sid \<mapsto> aws_examine be pd)\<rparr>, aws_queries be pd)"
proof -
  obtain vs pd2 evs where u: "updateVMState be pd = (vs, pd2, evs)"
    by (cases "updateVMState be pd") auto
  have l: "pd_Linux pd2 = Some lx" "pd_StateLock pd2 = False"
    using assms updateVMState_frame [OF u] by auto
  show ?thesis
  proof (cases "vs = VMRunning")
    case True
    then show ?thesis
      using assms(1-3) u l
      by (simp add: aws_PodSandboxStatus_def aws_getPodData_def lock_defs Let_def
        updateVMState_StateLock aws_return_RUnlock_def PodStatus_def aws_examine_def
        aws_queries_def)
  next
    case False
    then show ?thesis
      using assms(1-3) u l
      by (simp add: aws_PodSandboxStatus_def aws_getPodData_def lock_defs Let_def
        updateVMState_StateLock aws_return_RUnlock_def PodStatus_def aws_examine_def
        aws_queries_def)
  qed
qed

text \<open>
  C2.  Remove of a sandbox that is in the directory, in the cloud provider (\<open>v\<close>, id
  \<open>sid\<close>) and in the local-hypervisor provider (\<open>w\<close>, id \<open>tid\<close>), while no other request
  holds the directory lock or the record's state lock.  When the backend destroys the VM,
  the call's effects are, in this order, the destruction of the VM, the closing of the
  record's agent connection and the deletion of the directory entry, and a second Remove
  of the same id from the resulting provider returns the \<open>Invalid PodSandboxId\<close> error.
  When the backend fails to destroy the VM, the backend's error is returned, nothing else
  is done and the provider is returned as it was, so that Status of the id still answers
  with the record's status (for a record that has a Linux configuration and, in the
  local-hypervisor provider, when its state query succeeds).
\<close>

theorem Remove_order_and_retention:
  assumes "aws_vmMap v sid = Some pd"
    and "\<not> rw_writer (aws_vmMapLock v)" and "rw_readers (aws_vmMapLock v) = 0"
    and "\<not> pd_StateLock pd"
    and "vbox_vmMap w tid = Some qd" and "\<not> vbox_vmMapLock w" and "\<not> pd_StateLock qd"
  shows "(be_Destroy be (aws_vm pd) = None \<longrightarrow>
            aws_RemovePodSandbox v be sid =
              (Return (Some RemovePodSandboxResponse, None),
               v\<lparr>aws_vmMap := (aws_vmMap v)(sid := None)\<rparr>,
               [EvDestroy (aws_vm pd), EvClose (pd_Client pd), EvMapDelete sid])
          \<and> fst (aws_RemovePodSandbox (fst (snd (aws_RemovePodSandbox v be sid))) be2 sid) =
              Return (None, Some (Wrap ''RemovePodSandbox'' (Errorf ''Invalid PodSandboxId'' sid))))
       \<and> (\<forall>err. be_Destroy be (aws_vm pd) = Some err \<longrightarrow>
            aws_RemovePodSandbox v be sid =
              (Return (None, Some (Wrap ''RemovePodSandbox'' err)), v, [EvDestroy (aws_vm pd)])
          \<and> (pd_Linux pd \<noteq> None \<longrightarrow>
               (\<exists>st. fst (aws_PodSandboxStatus (fst (snd (aws_RemovePodSandbox v be sid))) be2 sid) =
                       Return (Some \<lparr>sr_Status = Some st\<rparr>, None)
                     \<and> st_Id st = Some (pd_Id pd))))
       \<and> (be_Destroy be' (vbox_vm qd) = None \<longrightarrow>
            vbox_RemovePodSandbox w be' tid =
              (Return (Some RemovePodSandboxResponse, None),
               w\<lparr>vbox_vmMap := (vbox_vmMap w)(tid := None)\<rparr>,
               [EvDestroy (vbox_vm qd), EvClose (pd_Client qd), EvMapDelete tid])
          \<and> fst (vbox_RemovePodSandbox (fst (snd (vbox_RemovePodSandbox w be' tid))) be2' tid) =
              Return (None, Some (Wrap ''RemovePodSandbox'' (Errorf ''Invalid PodSandboxId'' tid))))
       \<and> (\<forall>err. be_Destroy be' (vbox_vm qd) = Some err \<longrightarrow>
            vbox_RemovePodSandbox w be' tid =
              (Return (None, Some (Wrap ''RemovePodSandbox'' err)), w, [EvDestroy (vbox_vm qd)])
          \<and> (pd_Linux qd \<noteq> None \<longrightarrow> (\<forall>s. be_GetState be2' (vbox_vm qd) = Inr s \<longrightarrow>
               (\<exists>st. fst (vbox_PodSandboxStatus (fst (snd (vbox_RemovePodSandbox w be' tid))) be2' tid) =
                       Return (Some \<lparr>sr_Status = Some st\<rparr>, None)
                     \<and> st_Id st = Some (pd_Id qd)))))"
proof (intro conjI impI allI)
  assume d: "be_Destroy be (aws_vm pd) = None"
  show r: "aws_RemovePodSandbox v be sid =
              (Return (Some RemovePodSandboxResponse, None),
               v\<lparr>aws_vmMap := (aws_vmMap v)(sid := None)\<rparr>,
               [EvDestroy (aws_vm pd), EvClose (pd_Client pd), EvMapDelete sid])"
    using assms(1-4) d by (rule aws_Remove_ok)
  show "fst (aws_RemovePodSandbox (fst (snd (aws_RemovePodSandbox v be sid))) be2 sid) =
              Return (None, Some (Wrap ''RemovePodSandbox'' (Errorf ''Invalid PodSandboxId'' sid)))"
    unfolding r using assms(2,3) by (simp add: aws_Remove_missing)
next
  fix err assume d: "be_Destroy be (aws_vm pd) = Some err"
  show r: "aws_RemovePodSandbox v be sid =
              (Return (None, Some (Wrap ''RemovePodSandbox'' err)), v, [EvDestroy (aws_vm pd)])"
    using assms(1-4) d by (rule aws_Remove_fail)
  assume "pd_Linux pd \<noteq> None"
  then obtain lx where lx: "pd_Linux pd = Some lx" by auto
  from aws_Status_found [OF assms(1,2,4) lx, of be2]
  obtain st where st: "PodStatus (aws_examine be2 pd) = Return st"
    "aws_PodSandboxStatus v be2 sid =
       (Return (Some \<lparr>sr_Status = Some st\<rparr>, None),
        v\<lparr>aws_vmMap := (aws_vmMap v)(sid \<mapsto> aws_examine be2 pd)\<rparr>, aws_queries be2 pd)"
    by blast
  show "\<exists>st. fst (aws_PodSandboxStatus (fst (snd (aws_RemovePodSandbox v be sid))) be2 sid) =
                       Return (Some \<lparr>sr_Status = Some st\<rparr>, None)
                     \<and> st_Id st = Some (pd_Id pd)"
    unfolding r using st PodStatus_Return(1) [OF st(1)] by (simp add: aws_examine_frame)
next
  assume d: "be_Destroy be' (vbox_vm qd) = None"
  show r: "vbox_RemovePodSandbox w be' tid =
              (Return (Some RemovePodSandboxResponse, None),
               w\<lparr>vbox_vmMap := (vbox_vmMap w)(tid := None)\<rparr>,
               [EvDestroy (vbox_vm qd), EvClose (pd_Client qd), EvMapDelete tid])"
    using assms(5,6) d by (rule vbox_Remove_ok)
  show "fst (vbox_RemovePodSandbox (fst (snd (vbox_RemovePodSandbox w be' tid))) be2' tid) =
              Return (None, Some (Wrap ''RemovePodSandbox'' (Errorf ''Invalid PodSandboxId'' tid)))"
    unfolding r using assms(6) by (simp add: vbox_Remove_missing)
next
  fix err assume d: "be_Destroy be' (vbox_vm qd) = Some err"
  show r: "vbox_RemovePodSandbox w be' tid =
              (Return (None, Some (Wrap ''RemovePodSandbox'' err)), w, [EvDestroy (vbox_vm qd)])"
    using assms(5,6) d by (rule vbox_Remove_fail)
  fix s assume "pd_Linux qd \<noteq> None" and g: "be_GetState be2' (vbox_vm qd) = Inr s"
  then obtain lx where lx: "pd_Linux qd = Some lx" by auto
  from vbox_Status_found [OF assms(5,6,7) lx, of be2'] g
  show "\<exists>st. fst (vbox_PodSandboxStatus (fst (snd (vbox_RemovePodSandbox w be' tid))) be2' tid) =
                       Return (Some \<lparr>sr_Status = Some st\<rparr>, None)
                     \<and> st_Id st = Some (pd_Id qd)"
    unfolding r by (auto simp: PodStatus2_def lx)
qed

theorem Remove_order_and_retention_witness:
  "fst (aws_RemovePodSandbox ex_aws (ex_aws_backend 0) ''i-1'') =
     Return (Some RemovePodSandboxResponse, None)
   \<and> snd (snd (aws_RemovePodSandbox ex_aws (ex_aws_backend 0) ''i-1'')) =
     [EvDestroy ex_aws_vm, EvClose (Some 1), EvMapDelete ''i-1'']
   \<and> aws_RemovePodSandbox ex_aws
        ((ex_aws_backend 0)\<lparr>be_Destroy := \<lambda>vm. Some (External ''denied'')\<rparr>) ''i-1'' =
     (Return (None, Some (Wrap ''RemovePodSandbox'' (External ''denied''))), ex_aws,
      [EvDestroy ex_aws_vm])
   \<and> snd (snd (vbox_RemovePodSandbox ex_vbox (ex_vbox_backend 0) ''vm-1'')) =
     [EvDestroy ex_vbox_vm, EvClose (Some 2), EvMapDelete ''vm-1'']
   \<and> vbox_RemovePodSandbox ex_vbox
        ((ex_vbox_backend 0)\<lparr>be_Destroy := \<lambda>vm. Some (External ''denied'')\<rparr>) ''vm-1'' =
     (Return (None, Some (Wrap ''RemovePodSandbox'' (External ''denied''))), ex_vbox,
      [EvDestroy ex_vbox_vm])"
proof -
  have h: "aws_vmMap ex_aws ''i-1'' = Some ex_aws_pod" "\<not> rw_writer (aws_vmMapLock ex_aws)"
    "rw_readers (aws_vmMapLock ex_aws) = 0" "\<not> pd_StateLock ex_aws_pod"
    "vbox_vmMap ex_vbox ''vm-1'' = Some ex_vbox_pod" "\<not> vbox_vmMapLock ex_vbox"
    "\<not> pd_StateLock ex_vbox_pod"
    by (simp_all add: ex_aws_def ex_vbox_def ex_unlocked_def ex_aws_pod_def ex_vbox_pod_def)
  have ok: "be_Destroy (ex_aws_backend 0) (aws_vm ex_aws_pod) = None"
    "be_Destroy (ex_vbox_backend 0) (vbox_vm ex_vbox_pod) = None"
    by (simp_all add: ex_aws_backend_def ex_vbox_backend_def)
  have v: "aws_vm ex_aws_pod = ex_aws_vm" "pd_Client ex_aws_pod = Some 1"
    "vbox_vm ex_vbox_pod = ex_vbox_vm" "pd_Client ex_vbox_pod = Some 2"
    by (simp_all add: ex_aws_pod_def ex_vbox_pod_def)
  show ?thesis
    using Remove_order_and_retention [OF h, of "ex_aws_backend 0" _ "ex_vbox_backend 0"]
      Remove_order_and_retention [OF h,
        of "(ex_aws_backend 0)\<lparr>be_Destroy := \<lambda>vm. Some (External ''denied'')\<rparr>" _
           "(ex_vbox_backend 0)\<lparr>be_Destroy := \<lambda>vm. Some (External ''denied'')\<rparr>"]
      ok v
    by simp
qed

subsection \<open>Listing in the cloud provider\<close>

lemma FilterByLabels_fields:
  "pd_Labels p = pd_Labels q \<Longrightarrow> FilterByLabels p sel = FilterByLabels q sel"
  by (induction p sel rule: FilterByLabels.induct) (auto split: option.splits)

lemma Filter_fields:
  assumes "pd_Id p = pd_Id q" and "pd_PodState p = pd_PodState q" and "pd_Labels p = pd_Labels q"
  shows "Filter p flt = Filter q flt"
  using assms FilterByLabels_fields [OF assms(3)] by (simp add: Filter_def)

lemma Filter_StateLock [simp]:
  "Filter (p\<lparr>pd_StateLock := b\<rparr>) flt = Filter p flt"
  "Filter (p\<lparr>pd_StateLock := b, pd_PodState := s\<rparr>) flt = Filter (p\<lparr>pd_PodState := s\<rparr>) flt"
  by (rule Filter_fields; simp)+

lemma GetSandbox_StateLock [simp]:
  "GetSandbox (p\<lparr>pd_StateLock := b\<rparr>) = GetSandbox p"
  "GetSandbox (p\<lparr>pd_StateLock := b, pd_PodState := s\<rparr>) = GetSandbox (p\<lparr>pd_PodState := s\<rparr>)"
  by (simp_all add: GetSandbox_def)

lemma aws_filter_free:
  assumes "\<not> pd_StateLock pd"
  shows "aws_filter be pd flt =
    (Return (if fst (Filter (aws_examine be pd) flt) then None
             else Some (GetSandbox (aws_examine be pd))),
     aws_examine be pd, aws_queries be pd)"
proof -
  obtain vs pd2 evs where u: "updateVMState be pd = (vs, pd2, evs)"
    by (cases "updateVMState be pd") auto
  have l: "\<not> pd_StateLock pd2"
    using assms updateVMState_frame [OF u] by simp
  show ?thesis
    using assms u l
    by (simp add: aws_filter_def aws_examine_def aws_queries_def lock_defs Let_def
        updateVMState_StateLock)
qed

lemma aws_loop:
  assumes "distinct ids"
    and "\<forall>k\<in>set ids. \<forall>pd. aws_vmMap v k = Some pd \<longrightarrow> \<not> pd_StateLock pd"
  shows "aws_ListPodSandbox_loop be flt ids v sbs evs =
    (Return (sbs @ List.map_filter
        (\<lambda>k. aws_listed flt (map_option (aws_examine be) (aws_vmMap v k))) ids),
     v\<lparr>aws_vmMap := (\<lambda>k. if k \<in> set ids then map_option (aws_examine be) (aws_vmMap v k)
                          else aws_vmMap v k)\<rparr>,
     evs @ concat (map (\<lambda>k. case aws_vmMap v k of None \<Rightarrow> [] | Some pd \<Rightarrow> aws_queries be pd) ids))"
  using assms
proof (induction ids arbitrary: v sbs evs)
  case Nil
  show ?case by (simp add: List.map_filter_simps)
next
  case (Cons k ids)
  show ?case
  proof (cases "aws_vmMap v k")
    case None
    have "aws_ListPodSandbox_loop be flt (k # ids) v sbs evs =
          aws_ListPodSandbox_loop be flt ids v sbs evs"
      using None by simp
    also have "\<dots> = (Return (sbs @ List.map_filter
        (\<lambda>k. aws_listed flt (map_option (aws_examine be) (aws_vmMap v k))) ids),
     v\<lparr>aws_vmMap := (\<lambda>k. if k \<in> set ids then map_option (aws_examine be) (aws_vmMap v k)
                          else aws_vmMap v k)\<rparr>,
     evs @ concat (map (\<lambda>k. case aws_vmMap v k of None \<Rightarrow> [] | Some pd \<Rightarrow> aws_queries be pd) ids))"
      using Cons.prems by (intro Cons.IH) auto
    finally show ?thesis
      using None
      by (auto simp: List.map_filter_simps aws_listed_def
               intro!: arg_cong [where f = "\<lambda>m. v\<lparr>aws_vmMap := m\<rparr>"])
  next
    case (Some pd)
    let ?v1 = "v\<lparr>aws_vmMap := (aws_vmMap v)(k \<mapsto> aws_examine be pd)\<rparr>"
    have free: "\<not> pd_StateLock pd" using Cons.prems Some by auto
    have same: "\<And>j. j \<in> set ids \<Longrightarrow> aws_vmMap ?v1 j = aws_vmMap v j"
      using Cons.prems(1) by auto
    have IH: "aws_ListPodSandbox_loop be flt ids ?v1 sbs' evs' =
      (Return (sbs' @ List.map_filter
        (\<lambda>k. aws_listed flt (map_option (aws_examine be) (aws_vmMap ?v1 k))) ids),
     ?v1\<lparr>aws_vmMap := (\<lambda>k. if k \<in> set ids then map_option (aws_examine be) (aws_vmMap ?v1 k)
                          else aws_vmMap ?v1 k)\<rparr>,
     evs' @ concat (map (\<lambda>k. case aws_vmMap ?v1 k of None \<Rightarrow> [] | Some pd \<Rightarrow> aws_queries be pd) ids))"
      for sbs' evs'
      using Cons.prems by (intro Cons.IH) auto
    have mf: "List.map_filter
        (\<lambda>k. aws_listed flt (map_option (aws_examine be) (aws_vmMap ?v1 k))) ids =
        List.map_filter
        (\<lambda>k. aws_listed flt (map_option (aws_examine be) (aws_vmMap v k))) ids"
      unfolding List.map_filter_def using same
      by (intro arg_cong2 [where f = map] filter_cong map_cong refl) auto
    have ev: "map (\<lambda>k. case aws_vmMap ?v1 k of None \<Rightarrow> [] | Some pd \<Rightarrow> aws_queries be pd) ids =
       map (\<lambda>k. case aws_vmMap v k of None \<Rightarrow> [] | Some pd \<Rightarrow> aws_queries be pd) ids"
      using same by (intro map_cong refl) auto
    have mp: "(\<lambda>j. if j \<in> set ids then map_option (aws_examine be) (aws_vmMap ?v1 j)
                          else aws_vmMap ?v1 j) =
        (\<lambda>j. if j \<in> set (k # ids) then map_option (aws_examine be) (aws_vmMap v j)
                          else aws_vmMap v j)"
      using Cons.prems(1) Some by (auto simp: fun_eq_iff)
    have "aws_ListPodSandbox_loop be flt (k # ids) v sbs evs =
          aws_ListPodSandbox_loop be flt ids ?v1
            (sbs @ (if fst (Filter (aws_examine be pd) flt) then []
                    else [GetSandbox (aws_examine be pd)]))
            (evs @ aws_queries be pd)"
      using Some free by (simp add: aws_filter_free)
    then show ?thesis
      unfolding IH mf ev mp
      using Some by (simp add: List.map_filter_simps aws_listed_def)
  qed
qed

lemma aws_List_free:
  assumes "distinct order" and "\<not> rw_writer (aws_vmMapLock v)"
    and "\<forall>k\<in>set order. \<forall>pd. aws_vmMap v k = Some pd \<longrightarrow> \<not> pd_StateLock pd"
  shows "aws_ListPodSandbox v be order flt =
    (Return (Some \<lparr>lr_Items = List.map_filter
        (\<lambda>k. aws_listed flt (map_option (aws_examine be) (aws_vmMap v k))) order\<rparr>, None),
     v\<lparr>aws_vmMap := (\<lambda>k. if k \<in> set order then map_option (aws_examine be) (aws_vmMap v k)
                          else aws_vmMap v k)\<rparr>,
     concat (map (\<lambda>k. case aws_vmMap v k of None \<Rightarrow> [] | Some pd \<Rightarrow> aws_queries be pd) order))"
proof -
  let ?v1 = "v\<lparr>aws_vmMapLock := (aws_vmMapLock v)\<lparr>rw_readers := Suc (rw_readers (aws_vmMapLock v))\<rparr>\<rparr>"
  have "\<forall>k\<in>set order. \<forall>pd. aws_vmMap ?v1 k = Some pd \<longrightarrow> \<not> pd_StateLock pd"
    using assms(3) by simp
  from aws_loop [OF assms(1) this, of be flt "[]" "[]"] assms(2)
  show ?thesis
    by (simp add: aws_ListPodSandbox_def lock_defs aws_return_RUnlock_def cong: if_cong)
qed



lemma aws_queries_eq:
  "aws_queries be pd =
     (if aws_vmStateLastChecked pd + 30 * Second < be_NowCheck be (pd_Id pd)
      then [EvGetState (aws_vm pd)] else [])"
  by (simp add: aws_queries_def updateVMState_def Let_def split: sum.splits)

lemma aws_examine_sample:
  "(aws_vmState (aws_examine be pd), aws_vmStateLastChecked (aws_examine be pd)) =
     (if aws_vmStateLastChecked pd + 30 * Second < be_NowCheck be (pd_Id pd) then
        (case be_GetState be (aws_vm pd) of
           Inl err \<Rightarrow> (aws_vmState pd, aws_vmStateLastChecked pd)
         | Inr s \<Rightarrow> (s, be_NowStamp be (pd_Id pd)))
      else (aws_vmState pd, aws_vmStateLastChecked pd))"
  by (simp add: aws_examine_def updateVMState_def Let_def split: sum.splits)

lemma aws_examine_PodState':
  "pd_PodState (aws_examine be pd) =
     (if aws_vmState (aws_examine be pd) \<noteq> VMRunning then PodSandBoxState_NOTREADY
      else pd_PodState pd)"
  by (simp add: aws_examine_def updateVMState_def Let_def split: sum.splits)

lemma GetSandbox_fields: "sb_Id (GetSandbox p) = Some (pd_Id p)"
  "sb_State (GetSandbox p) = Some (pd_PodState p)"
  by (simp_all add: GetSandbox_def)


subsection \<open>The refresh of the cached VM state\<close>

lemma vbox_loop_events:
  "snd (vbox_ListPodSandbox_loop be flt ids w sbs evs) =
     evs @ concat (map (\<lambda>k. case vbox_vmMap w k of None \<Rightarrow> []
                              | Some p \<Rightarrow> [EvGetState (vbox_vm p)]) ids)"
  by (induction ids arbitrary: sbs evs) (auto simp: Let_def split: option.splits sum.splits)

lemma vbox_List_events:
  assumes "\<not> vbox_vmMapLock w"
  shows "\<exists>items. vbox_ListPodSandbox w be order flt =
     (Return (Some \<lparr>lr_Items = items\<rparr>, None), w,
      concat (map (\<lambda>k. case vbox_vmMap w k of None \<Rightarrow> []
                              | Some p \<Rightarrow> [EvGetState (vbox_vm p)]) order))"
proof -
  let ?w1 = "w\<lparr>vbox_vmMapLock := True\<rparr>"
  obtain items evs where l: "vbox_ListPodSandbox_loop be flt order ?w1 [] [] = (items, evs)"
    by (cases "vbox_ListPodSandbox_loop be flt order ?w1 [] []") auto
  have "evs = concat (map (\<lambda>k. case vbox_vmMap w k of None \<Rightarrow> []
                              | Some p \<Rightarrow> [EvGetState (vbox_vm p)]) order)"
    using vbox_loop_events [of be flt order ?w1 "[]" "[]"] l by simp
  then show ?thesis
    using assms l
    by (simp add: vbox_ListPodSandbox_def lock_defs vbox_return_Unlock_def)
qed

lemma aws_Status_events:
  assumes "aws_vmMap v sid = Some pd" and "\<not> rw_writer (aws_vmMapLock v)"
    and "\<not> pd_StateLock pd"
  shows "snd (snd (aws_PodSandboxStatus v be sid)) = aws_queries be pd"
proof (cases "pd_Linux pd")
  case None
  obtain vs pd2 evs where u: "updateVMState be pd = (vs, pd2, evs)"
    by (cases "updateVMState be pd") auto
  have "pd_Linux pd2 = None"
    using None updateVMState_frame [OF u] by simp
  then show ?thesis
    using assms u
    by (simp add: aws_PodSandboxStatus_def aws_getPodData_def lock_defs Let_def
        updateVMState_StateLock PodStatus_def aws_queries_def)
next
  case (Some lx)
  from aws_Status_found [OF assms Some, of be] show ?thesis by auto
qed

lemma vbox_Status_without_Linux:
  assumes "vbox_vmMap w sid = Some qd" and "\<not> vbox_vmMapLock w"
    and "\<not> pd_StateLock qd" and "pd_Linux qd = None"
  shows "fst (vbox_PodSandboxStatus w be sid) = Panic NilDereference"
    and "snd (snd (vbox_PodSandboxStatus w be sid)) = []"
  using assms
  by (simp_all add: vbox_PodSandboxStatus_def vbox_getPodData_free lock_defs PodStatus2_def
      Let_def)

text \<open>
  C3, as amended.  In the cloud provider, let the record \<open>pd\<close> be stored under \<open>sid\<close>
  and the locks concerned be free; call the cached sample \<open>stale\<close> when the clock, read
  at the test, is more than 30 seconds past the sample's time stamp.  Status of \<open>sid\<close>
  queries the backend once when the sample is stale and not at all otherwise, and so does
  List for each record it enumerates.  After List, and after Status of a record that has
  a Linux configuration, the record's sample and time stamp are the queried state and the
  clock reading taken after the query when the sample was stale and the query succeeded,
  and are as before otherwise; in particular a failed query changes neither, and the
  call still answers: Status with the sandbox state that follows from the sample it is
  left with, List with its items.  A further Status whose clock reading is no more than
  30 seconds past the time stamp so left makes no backend query and leaves the same
  sample and time stamp.  The local-hypervisor provider keeps no sample: its List makes
  one backend query for every record it enumerates; its Status of a known sandbox makes
  one backend query on every call when the record has a Linux configuration, and panics
  before any query when it has none.
\<close>

theorem aws_refresh_policy:
  assumes "aws_vmMap v sid = Some pd" and "\<not> rw_writer (aws_vmMapLock v)"
    and "\<not> pd_StateLock pd"
    and "distinct order" and "sid \<in> set order"
    and "\<forall>k\<in>set order. \<forall>p. aws_vmMap v k = Some p \<longrightarrow> \<not> pd_StateLock p"
    and "stale = (aws_vmStateLastChecked pd + 30 * Second < be_NowCheck be (pd_Id pd))"
    and "sample =
           (if stale then
              (case be_GetState be (aws_vm pd) of
                 Inl err \<Rightarrow> (aws_vmState pd, aws_vmStateLastChecked pd)
               | Inr s \<Rightarrow> (s, be_NowStamp be (pd_Id pd)))
            else (aws_vmState pd, aws_vmStateLastChecked pd))"
    and "\<not> vbox_vmMapLock w"
  shows "snd (snd (aws_PodSandboxStatus v be sid)) =
           (if stale then [EvGetState (aws_vm pd)] else [])
       \<and> (pd_Linux pd \<noteq> None \<longrightarrow>
           (\<exists>st v' pd'.
              aws_PodSandboxStatus v be sid =
                (Return (Some \<lparr>sr_Status = Some st\<rparr>, None), v',
                 if stale then [EvGetState (aws_vm pd)] else [])
            \<and> aws_vmMap v' sid = Some pd'
            \<and> (aws_vmState pd', aws_vmStateLastChecked pd') = sample
            \<and> st_State st =
                Some (if fst sample \<noteq> VMRunning then PodSandBoxState_NOTREADY else pd_PodState pd)
            \<and> (\<forall>be2. be_NowCheck be2 (pd_Id pd) \<le> snd sample + 30 * Second \<longrightarrow>
                  (\<exists>st2 v2 pd2.
                      aws_PodSandboxStatus v' be2 sid =
                        (Return (Some \<lparr>sr_Status = Some st2\<rparr>, None), v2, [])
                    \<and> aws_vmMap v2 sid = Some pd2
                    \<and> (aws_vmState pd2, aws_vmStateLastChecked pd2) = sample))))
       \<and> (\<exists>items v' pd'.
            aws_ListPodSandbox v be order flt =
              (Return (Some \<lparr>lr_Items = items\<rparr>, None), v',
               concat (map (\<lambda>k. case aws_vmMap v k of
                                   None \<Rightarrow> []
                                 | Some p \<Rightarrow>
                                     if aws_vmStateLastChecked p + 30 * Second
                                          < be_NowCheck be (pd_Id p)
                                     then [EvGetState (aws_vm p)] else []) order))
          \<and> aws_vmMap v' sid = Some pd'
          \<and> (aws_vmState pd', aws_vmStateLastChecked pd') = sample)
       \<and> (vbox_vmMap w tid = Some qd \<and> \<not> pd_StateLock qd \<and> pd_Linux qd \<noteq> None \<longrightarrow>
            snd (snd (vbox_PodSandboxStatus w be' tid)) = [EvGetState (vbox_vm qd)])
       \<and> (vbox_vmMap w tid = Some qd \<and> \<not> pd_StateLock qd \<and> pd_Linux qd = None \<longrightarrow>
            fst (vbox_PodSandboxStatus w be' tid) = Panic NilDereference
          \<and> snd (snd (vbox_PodSandboxStatus w be' tid)) = [])
       \<and> snd (snd (vbox_ListPodSandbox w be' order' flt')) =
           concat (map (\<lambda>k. case vbox_vmMap w k of
                               None \<Rightarrow> []
                             | Some p \<Rightarrow> [EvGetState (vbox_vm p)]) order')"
proof (intro conjI impI)
  let ?pd' = "aws_examine be pd"
  let ?v' = "v\<lparr>aws_vmMap := (aws_vmMap v)(sid \<mapsto> ?pd')\<rparr>"
  have smp: "(aws_vmState ?pd', aws_vmStateLastChecked ?pd') = sample"
    using assms(7,8) by (simp only: aws_examine_sample)
  have q: "aws_queries be pd = (if stale then [EvGetState (aws_vm pd)] else [])"
    using assms(7) by (simp only: aws_queries_eq)
  show "snd (snd (aws_PodSandboxStatus v be sid)) =
           (if stale then [EvGetState (aws_vm pd)] else [])"
    using aws_Status_events [OF assms(1-3), of be] q by simp
  {
    assume "pd_Linux pd \<noteq> None"
    then obtain lx where lx: "pd_Linux pd = Some lx" by auto
    from aws_Status_found [OF assms(1-3) lx, of be]
    obtain st where st: "PodStatus ?pd' = Return st"
      "aws_PodSandboxStatus v be sid =
         (Return (Some \<lparr>sr_Status = Some st\<rparr>, None), ?v', aws_queries be pd)"
      by blast
    have sst: "st_State st =
        Some (if fst sample \<noteq> VMRunning then PodSandBoxState_NOTREADY else pd_PodState pd)"
      using PodStatus_Return(2) [OF st(1)] aws_examine_PodState' [of be pd] smp [symmetric]
      by simp
    have second: "\<exists>st2 v2 pd2.
                      aws_PodSandboxStatus ?v' be2 sid =
                        (Return (Some \<lparr>sr_Status = Some st2\<rparr>, None), v2, [])
                    \<and> aws_vmMap v2 sid = Some pd2
                    \<and> (aws_vmState pd2, aws_vmStateLastChecked pd2) = sample"
      if t: "be_NowCheck be2 (pd_Id pd) \<le> snd sample + 30 * Second" for be2
    proof -
      have h: "aws_vmMap ?v' sid = Some ?pd'" "\<not> rw_writer (aws_vmMapLock ?v')"
        "\<not> pd_StateLock ?pd'" "pd_Linux ?pd' = Some lx"
        using assms(2,3) lx by (simp_all add: aws_examine_frame)
      from aws_Status_found [OF h, of be2]
      obtain st2 where st2: "aws_PodSandboxStatus ?v' be2 sid =
         (Return (Some \<lparr>sr_Status = Some st2\<rparr>, None),
          ?v'\<lparr>aws_vmMap := (aws_vmMap ?v')(sid \<mapsto> aws_examine be2 ?pd')\<rparr>, aws_queries be2 ?pd')"
        by blast
      have fresh: "\<not> aws_vmStateLastChecked ?pd' + 30 * Second < be_NowCheck be2 (pd_Id ?pd')"
        using t smp [symmetric] by (simp add: aws_examine_frame)
      have "aws_queries be2 ?pd' = []"
        using fresh by (simp only: aws_queries_eq if_False)
      moreover have "(aws_vmState (aws_examine be2 ?pd'), aws_vmStateLastChecked (aws_examine be2 ?pd'))
          = sample"
        using fresh smp by (simp only: aws_examine_sample if_False)
      ultimately show ?thesis
        using st2 by auto
    qed
    show "\<exists>st v' pd'.
              aws_PodSandboxStatus v be sid =
                (Return (Some \<lparr>sr_Status = Some st\<rparr>, None), v',
                 if stale then [EvGetState (aws_vm pd)] else [])
            \<and> aws_vmMap v' sid = Some pd'
            \<and> (aws_vmState pd', aws_vmStateLastChecked pd') = sample
            \<and> st_State st =
                Some (if fst sample \<noteq> VMRunning then PodSandBoxState_NOTREADY else pd_PodState pd)
            \<and> (\<forall>be2. be_NowCheck be2 (pd_Id pd) \<le> snd sample + 30 * Second \<longrightarrow>
                  (\<exists>st2 v2 pd2.
                      aws_PodSandboxStatus v' be2 sid =
                        (Return (Some \<lparr>sr_Status = Some st2\<rparr>, None), v2, [])
                    \<and> aws_vmMap v2 sid = Some pd2
                    \<and> (aws_vmState pd2, aws_vmStateLastChecked pd2) = sample))"
      apply (rule exI [of _ st], rule exI [of _ ?v'], rule exI [of _ ?pd'])
      using st(2) q smp sst second by simp
  }
  let ?w' = "v\<lparr>aws_vmMap := (\<lambda>k. if k \<in> set order then map_option (aws_examine be) (aws_vmMap v k)
                          else aws_vmMap v k)\<rparr>"
  have l: "aws_ListPodSandbox v be order flt =
     (Return (Some \<lparr>lr_Items = List.map_filter
        (\<lambda>k. aws_listed flt (map_option (aws_examine be) (aws_vmMap v k))) order\<rparr>, None), ?w',
      concat (map (\<lambda>k. case aws_vmMap v k of None \<Rightarrow> [] | Some pd \<Rightarrow> aws_queries be pd) order))"
    using assms(4,2,6) by (rule aws_List_free)
  have a: "aws_vmMap ?w' sid = Some ?pd'"
    using assms(1,5) by simp
  have e: "map (\<lambda>k. case aws_vmMap v k of None \<Rightarrow> [] | Some pd \<Rightarrow> aws_queries be pd) order =
     map (\<lambda>k. case aws_vmMap v k of
                                   None \<Rightarrow> []
                                 | Some p \<Rightarrow>
                                     if aws_vmStateLastChecked p + 30 * Second
                                          < be_NowCheck be (pd_Id p)
                                     then [EvGetState (aws_vm p)] else []) order"
    by (simp add: aws_queries_eq cong: option.case_cong)
  show "\<exists>items v' pd'.
            aws_ListPodSandbox v be order flt =
              (Return (Some \<lparr>lr_Items = items\<rparr>, None), v',
               concat (map (\<lambda>k. case aws_vmMap v k of
                                   None \<Rightarrow> []
                                 | Some p \<Rightarrow>
                                     if aws_vmStateLastChecked p + 30 * Second
                                          < be_NowCheck be (pd_Id p)
                                     then [EvGetState (aws_vm p)] else []) order))
          \<and> aws_vmMap v' sid = Some pd'
          \<and> (aws_vmState pd', aws_vmStateLastChecked pd') = sample"
    using l a smp unfolding e by blast
  {
    assume q: "vbox_vmMap w tid = Some qd \<and> \<not> pd_StateLock qd \<and> pd_Linux qd \<noteq> None"
    then obtain lx' where lx': "pd_Linux qd = Some lx'" by auto
    from vbox_Status_found [OF q [THEN conjunct1] assms(9) q [THEN conjunct2, THEN conjunct1] lx',
        of be']
    show "snd (snd (vbox_PodSandboxStatus w be' tid)) = [EvGetState (vbox_vm qd)]"
      by (cases "be_GetState be' (vbox_vm qd)") auto
  }
  {
    assume n: "vbox_vmMap w tid = Some qd \<and> \<not> pd_StateLock qd \<and> pd_Linux qd = None"
    show "fst (vbox_PodSandboxStatus w be' tid) = Panic NilDereference"
      using n assms(9) by (intro vbox_Status_without_Linux(1) [of w tid qd]) simp_all
    show "snd (snd (vbox_PodSandboxStatus w be' tid)) = []"
      using n assms(9) by (intro vbox_Status_without_Linux(2) [of w tid qd]) simp_all
  }
  from vbox_List_events [OF assms(9), of be' order' flt']
  show "snd (snd (vbox_ListPodSandbox w be' order' flt')) =
           concat (map (\<lambda>k. case vbox_vmMap w k of
                               None \<Rightarrow> []
                             | Some p \<Rightarrow> [EvGetState (vbox_vm p)]) order')"
    by auto
qed

theorem aws_refresh_policy_witness:
  "(\<exists>st v' pd'.
      aws_PodSandboxStatus ex_aws
        ((ex_aws_backend 31000000000)\<lparr>be_GetState := \<lambda>vm. Inl (External ''timeout'')\<rparr>) ''i-1'' =
        (Return (Some \<lparr>sr_Status = Some st\<rparr>, None), v', [EvGetState ex_aws_vm])
    \<and> aws_vmMap v' ''i-1'' = Some pd'
    \<and> (aws_vmState pd', aws_vmStateLastChecked pd') = (''running'', 0)
    \<and> st_State st = Some PodSandBoxState_READY)
   \<and> snd (snd (aws_ListPodSandbox ex_aws
        ((ex_aws_backend 31000000000)\<lparr>be_GetState := \<lambda>vm. Inl (External ''timeout'')\<rparr>)
        [''i-1''] None)) = [EvGetState ex_aws_vm]
   \<and> snd (snd (vbox_PodSandboxStatus ex_vbox (ex_vbox_backend 0) ''vm-1'')) =
        [EvGetState ex_vbox_vm]
   \<and> snd (snd (vbox_ListPodSandbox ex_vbox (ex_vbox_backend 0) [''vm-1''] None)) =
        [EvGetState ex_vbox_vm]"
proof -
  let ?be = "(ex_aws_backend 31000000000)\<lparr>be_GetState := \<lambda>vm. Inl (External ''timeout'')\<rparr>"
  have h: "aws_vmMap ex_aws ''i-1'' = Some ex_aws_pod" "\<not> rw_writer (aws_vmMapLock ex_aws)"
    "\<not> pd_StateLock ex_aws_pod"
    "distinct [''i-1'']" "''i-1'' \<in> set [''i-1'']"
    "\<forall>k\<in>set [''i-1'']. \<forall>p. aws_vmMap ex_aws k = Some p \<longrightarrow> \<not> pd_StateLock p"
    by (simp_all add: ex_aws_def ex_unlocked_def ex_aws_pod_def)
  have s: "True = (aws_vmStateLastChecked ex_aws_pod + 30 * Second
                     < be_NowCheck ?be (pd_Id ex_aws_pod))"
    by (simp add: ex_aws_pod_def ex_aws_backend_def Second_def)
  have m: "(''running'', 0) =
           (if True then
              (case be_GetState ?be (aws_vm ex_aws_pod) of
                 Inl err \<Rightarrow> (aws_vmState ex_aws_pod, aws_vmStateLastChecked ex_aws_pod)
               | Inr s \<Rightarrow> (s, be_NowStamp ?be (pd_Id ex_aws_pod)))
            else (aws_vmState ex_aws_pod, aws_vmStateLastChecked ex_aws_pod))"
    by (simp add: ex_aws_pod_def ex_aws_backend_def)
  have w: "\<not> vbox_vmMapLock ex_vbox"
    by (simp add: ex_vbox_def)
  have x: "aws_vmMap ex_aws ''i-1'' = Some ex_aws_pod" "vbox_vmMap ex_vbox ''vm-1'' = Some ex_vbox_pod"
    "aws_vm ex_aws_pod = ex_aws_vm" "vbox_vm ex_vbox_pod = ex_vbox_vm"
    "pd_Linux ex_aws_pod = Some ex_linux" "pd_Linux ex_vbox_pod = Some ex_linux"
    "pd_PodState ex_aws_pod = PodSandBoxState_READY" "pd_Id ex_aws_pod = ''i-1''"
    "aws_vmStateLastChecked ex_aws_pod = 0" "be_NowCheck ?be ''i-1'' = 31000000000"
    "be_NowCheck (ex_aws_backend 31000000000) ''i-1'' = 31000000000"
    by (simp_all add: ex_aws_def ex_vbox_def ex_aws_pod_def ex_vbox_pod_def ex_aws_backend_def)
  note T = aws_refresh_policy [OF h s m w, of None "''vm-1''" ex_vbox_pod "ex_vbox_backend 0"
      "[''vm-1'']" None]
  have lin: "pd_Linux ex_aws_pod \<noteq> None"
    "vbox_vmMap ex_vbox ''vm-1'' = Some ex_vbox_pod \<and> \<not> pd_StateLock ex_vbox_pod
       \<and> pd_Linux ex_vbox_pod \<noteq> None"
    by (simp_all add: x ex_vbox_pod_def)
  from T [THEN conjunct2, THEN conjunct1, THEN mp, OF lin(1)]
  obtain st v' pd' where a:
    "aws_PodSandboxStatus ex_aws ?be ''i-1'' =
       (Return (Some \<lparr>sr_Status = Some st\<rparr>, None), v',
        if True then [EvGetState (aws_vm ex_aws_pod)] else [])"
    "aws_vmMap v' ''i-1'' = Some pd'"
    "(aws_vmState pd', aws_vmStateLastChecked pd') = (''running'', 0)"
    "st_State st =
       Some (if fst (''running'', 0::int) \<noteq> VMRunning then PodSandBoxState_NOTREADY
             else pd_PodState ex_aws_pod)"
    by blast
  have c1: "\<exists>st v' pd'.
      aws_PodSandboxStatus ex_aws ?be ''i-1'' =
        (Return (Some \<lparr>sr_Status = Some st\<rparr>, None), v', [EvGetState ex_aws_vm])
    \<and> aws_vmMap v' ''i-1'' = Some pd'
    \<and> (aws_vmState pd', aws_vmStateLastChecked pd') = (''running'', 0)
    \<and> st_State st = Some PodSandBoxState_READY"
    using a by (intro exI [of _ st] exI [of _ v'] exI [of _ pd']) (simp add: x VMRunning_def)
  from T [THEN conjunct2, THEN conjunct2, THEN conjunct1]
  obtain items v2 where
    "aws_ListPodSandbox ex_aws ?be [''i-1''] None =
       (Return (Some \<lparr>lr_Items = items\<rparr>, None), v2,
        concat (map (\<lambda>k. case aws_vmMap ex_aws k of
                            None \<Rightarrow> []
                          | Some p \<Rightarrow>
                              if aws_vmStateLastChecked p + 30 * Second < be_NowCheck ?be (pd_Id p)
                              then [EvGetState (aws_vm p)] else []) [''i-1'']))"
    by blast
  then have c2: "snd (snd (aws_ListPodSandbox ex_aws ?be [''i-1''] None)) = [EvGetState ex_aws_vm]"
    by (simp add: x Second_def)
  have c3: "snd (snd (vbox_PodSandboxStatus ex_vbox (ex_vbox_backend 0) ''vm-1'')) =
        [EvGetState ex_vbox_vm]"
    using T [THEN conjunct2, THEN conjunct2, THEN conjunct2, THEN conjunct1, THEN mp, OF lin(2)]
    by (simp add: x)
  have c4: "snd (snd (vbox_ListPodSandbox ex_vbox (ex_vbox_backend 0) [''vm-1''] None)) =
        [EvGetState ex_vbox_vm]"
    using T [THEN conjunct2, THEN conjunct2, THEN conjunct2, THEN conjunct2, THEN conjunct2]
    by (simp add: x)
  show ?thesis
    using c1 c2 c3 c4 by (intro conjI)
qed

text \<open>
  The claim as first stated fails in two ways.  In the local-hypervisor provider, two
  Status calls one second apart, on a sandbox whose VM runs, each query the backend.  In
  the cloud provider, with a sample taken at time 0, a Status at 29 seconds makes no
  query, and a second Status at 40 seconds, 11 seconds after the first, makes one.
\<close>

theorem refresh_window_counterexample:
  "snd (snd (vbox_PodSandboxStatus ex_vbox (ex_vbox_backend 0) ''vm-1'')) = [EvGetState ex_vbox_vm]
   \<and> snd (snd (vbox_PodSandboxStatus
                 (fst (snd (vbox_PodSandboxStatus ex_vbox (ex_vbox_backend 0) ''vm-1'')))
                 (ex_vbox_backend 1000000000) ''vm-1'')) = [EvGetState ex_vbox_vm]
   \<and> snd (snd (aws_PodSandboxStatus ex_aws (ex_aws_backend 29000000000) ''i-1'')) = []
   \<and> snd (snd (aws_PodSandboxStatus
                 (fst (snd (aws_PodSandboxStatus ex_aws (ex_aws_backend 29000000000) ''i-1'')))
                 (ex_aws_backend 40000000000) ''i-1'')) = [EvGetState ex_aws_vm]"
proof -
  have w: "vbox_vmMap ex_vbox ''vm-1'' = Some ex_vbox_pod" "\<not> vbox_vmMapLock ex_vbox"
    "\<not> pd_StateLock ex_vbox_pod" "pd_Linux ex_vbox_pod = Some ex_linux"
    by (simp_all add: ex_vbox_def ex_vbox_pod_def)
  have g: "be_GetState (ex_vbox_backend t) (vbox_vm ex_vbox_pod) = Inr ''running''" for t
    by (simp add: ex_vbox_backend_def)
  have vb: "vbox_vm ex_vbox_pod = ex_vbox_vm" by (simp add: ex_vbox_pod_def)
  have v1: "fst (snd (vbox_PodSandboxStatus ex_vbox (ex_vbox_backend t) ''vm-1'')) = ex_vbox"
    "snd (snd (vbox_PodSandboxStatus ex_vbox (ex_vbox_backend t) ''vm-1'')) = [EvGetState ex_vbox_vm]"
    for t
    using vbox_Status_found [OF w, of "ex_vbox_backend t"] g [of t] vb by auto
  have h: "aws_vmMap ex_aws ''i-1'' = Some ex_aws_pod" "\<not> rw_writer (aws_vmMapLock ex_aws)"
    "\<not> pd_StateLock ex_aws_pod" "pd_Linux ex_aws_pod = Some ex_linux"
    by (simp_all add: ex_aws_def ex_unlocked_def ex_aws_pod_def)
  have ex: "aws_examine (ex_aws_backend 29000000000) ex_aws_pod = ex_aws_pod"
    by (simp add: aws_examine_def updateVMState_def ex_aws_backend_def ex_aws_pod_def Second_def
        VMRunning_def)
  have q1: "aws_queries (ex_aws_backend 29000000000) ex_aws_pod = []"
    by (simp add: aws_queries_eq ex_aws_backend_def ex_aws_pod_def Second_def)
  have q2: "aws_queries (ex_aws_backend 40000000000) ex_aws_pod = [EvGetState ex_aws_vm]"
    by (simp add: aws_queries_eq ex_aws_backend_def ex_aws_pod_def Second_def)
  have a1: "fst (snd (aws_PodSandboxStatus ex_aws (ex_aws_backend 29000000000) ''i-1'')) = ex_aws"
    "snd (snd (aws_PodSandboxStatus ex_aws (ex_aws_backend 29000000000) ''i-1'')) = []"
    using aws_Status_found [OF h, of "ex_aws_backend 29000000000"] ex q1 h(1)
    by (auto simp: map_upd_triv)
  have a2: "snd (snd (aws_PodSandboxStatus ex_aws (ex_aws_backend 40000000000) ''i-1'')) =
      [EvGetState ex_aws_vm]"
    using aws_Status_found [OF h, of "ex_aws_backend 40000000000"] q2 by auto
  show ?thesis
    by (simp add: v1 a1 a2)
qed

subsection \<open>What the list filter lets through\<close>



text \<open>
  C4.  A filter that sets neither an id nor a state and selects the label \<open>app = web\<close>,
  applied to a sandbox that carries this label and whose state is \<open>NOTREADY\<close>: the
  record is filtered out, with the message that \<open>READY\<close> was wanted, and the list of
  either provider is empty, although the record meets every component the filter
  specifies.
\<close>

theorem unset_state_filters_as_ready:
  "Filter (ex_aws_pod\<lparr>pd_PodState := PodSandBoxState_NOTREADY\<rparr>)
     (Some \<lparr>pf_Id = None, pf_State = None, pf_LabelSelector = [(''app'', ''web'')]\<rparr>) =
     (True, WantGot PodSandBoxState_READY PodSandBoxState_NOTREADY)
   \<and> vbox_ListPodSandbox
        (ex_vbox\<lparr>vbox_vmMap := [''vm-1'' \<mapsto> ex_vbox_pod\<lparr>pd_PodState := PodSandBoxState_NOTREADY\<rparr>]\<rparr>)
        (ex_vbox_backend 0) [''vm-1'']
        (Some \<lparr>pf_Id = None, pf_State = None, pf_LabelSelector = [(''app'', ''web'')]\<rparr>) =
     (Return (Some \<lparr>lr_Items = []\<rparr>, None),
      ex_vbox\<lparr>vbox_vmMap := [''vm-1'' \<mapsto> ex_vbox_pod\<lparr>pd_PodState := PodSandBoxState_NOTREADY\<rparr>]\<rparr>,
      [EvGetState ex_vbox_vm])
   \<and> fst (aws_ListPodSandbox
        (ex_aws\<lparr>aws_vmMap := [''i-1'' \<mapsto> ex_aws_pod\<lparr>pd_PodState := PodSandBoxState_NOTREADY\<rparr>]\<rparr>)
        (ex_aws_backend 0) [''i-1'']
        (Some \<lparr>pf_Id = None, pf_State = None, pf_LabelSelector = [(''app'', ''web'')]\<rparr>)) =
     Return (Some \<lparr>lr_Items = []\<rparr>, None)"
proof (intro conjI)
  show "Filter (ex_aws_pod\<lparr>pd_PodState := PodSandBoxState_NOTREADY\<rparr>)
     (Some \<lparr>pf_Id = None, pf_State = None, pf_LabelSelector = [(''app'', ''web'')]\<rparr>) =
     (True, WantGot PodSandBoxState_READY PodSandBoxState_NOTREADY)"
    by (simp add: Filter_def GetId_def GetState_def ex_aws_pod_def)
  show "vbox_ListPodSandbox
        (ex_vbox\<lparr>vbox_vmMap := [''vm-1'' \<mapsto> ex_vbox_pod\<lparr>pd_PodState := PodSandBoxState_NOTREADY\<rparr>]\<rparr>)
        (ex_vbox_backend 0) [''vm-1'']
        (Some \<lparr>pf_Id = None, pf_State = None, pf_LabelSelector = [(''app'', ''web'')]\<rparr>) =
     (Return (Some \<lparr>lr_Items = []\<rparr>, None),
      ex_vbox\<lparr>vbox_vmMap := [''vm-1'' \<mapsto> ex_vbox_pod\<lparr>pd_PodState := PodSandBoxState_NOTREADY\<rparr>]\<rparr>,
      [EvGetState ex_vbox_vm])"
    by (simp add: vbox_ListPodSandbox_def vbox_return_Unlock_def lock_defs ex_vbox_def
        ex_vbox_pod_def ex_vbox_backend_def ex_vbox_vm_def GetId_def GetState_def VMRunning_def
        Let_def)
  show "fst (aws_ListPodSandbox
        (ex_aws\<lparr>aws_vmMap := [''i-1'' \<mapsto> ex_aws_pod\<lparr>pd_PodState := PodSandBoxState_NOTREADY\<rparr>]\<rparr>)
        (ex_aws_backend 0) [''i-1'']
        (Some \<lparr>pf_Id = None, pf_State = None, pf_LabelSelector = [(''app'', ''web'')]\<rparr>)) =
     Return (Some \<lparr>lr_Items = []\<rparr>, None)"
    by (simp add: aws_ListPodSandbox_def aws_filter_def updateVMState_def
        aws_return_RUnlock_def lock_defs ex_aws_def ex_unlocked_def
        ex_aws_pod_def ex_aws_backend_def ex_aws_vm_def Filter_def GetId_def GetState_def
        VMRunning_def Second_def Let_def)
qed

subsection \<open>The downgrade of a sandbox whose VM is not running\<close>




subsection \<open>Creation of a sandbox\<close>

text \<open>A directory changes under RunPodSandbox only when the call returns a sandbox id.\<close>

lemma aws_Run_entry_only_on_success:
  "aws_vmMap (fst (snd (aws_RunPodSandbox v be req))) = aws_vmMap v
   \<or> (\<exists>name. fst (aws_RunPodSandbox v be req) = Return (Some \<lparr>rp_PodSandboxId = Some name\<rparr>, None))"
  by (simp add: aws_RunPodSandbox_def aws_return_Unlock_def lock_defs Let_def
      split: sum.split option.split list.split prod.split)

lemma vbox_Run_entry_only_on_success:
  "vbox_vmMap (fst (snd (vbox_RunPodSandbox v be req))) = vbox_vmMap v
   \<or> (\<exists>name. fst (vbox_RunPodSandbox v be req) = Return (Some \<lparr>rp_PodSandboxId = Some name\<rparr>, None))"
  by (simp add: vbox_RunPodSandbox_def vbox_return_Unlock_def lock_defs Let_def
      split: sum.split option.split list.split prod.split)


text \<open>
  C1.  RunPodSandbox on an empty directory, with a backend that provisions the VM and
  reports its address.  When the agent connection factory returns an error, the cloud
  provider returns that error and leaves the directory empty, and its last backend call
  is the attempt to connect: the VM just provisioned is not destroyed.  When the factory
  returns no error and no client, the same provider does destroy the VM before it
  returns its error.  The local-hypervisor provider, on a factory error, returns the
  error without destroying the VM either.
\<close>

theorem createClient_error_leaks_vm:
  "aws_RunPodSandbox ex_aws_empty
     ((ex_aws_backend 0)\<lparr>be_CreateClient := \<lambda>ip. (None, Some (External ''connection refused''))\<rparr>)
     ex_request =
     (Return (None, Some (Wrap ''CreatePodSandbox: error in createClient()''
                            (External ''connection refused''))),
      ex_aws_empty,
      [EvReadFile ''key.pem'',
       EvProvision \<lparr>vm_Name = '':'', vm_SSHPrivateKey = ''secret'', vm_InstanceID = []\<rparr>,
       EvGetIPs ex_aws_vm, EvCreateClient ''10.0.0.1''])
   \<and> aws_RunPodSandbox ex_aws_empty
     ((ex_aws_backend 0)\<lparr>be_CreateClient := \<lambda>ip. (None, None)\<rparr>) ex_request =
     (Return (None, Some (Errorf ''returned a nil GRPC client'' [])),
      ex_aws_empty,
      [EvReadFile ''key.pem'',
       EvProvision \<lparr>vm_Name = '':'', vm_SSHPrivateKey = ''secret'', vm_InstanceID = []\<rparr>,
       EvGetIPs ex_aws_vm, EvCreateClient ''10.0.0.1'', EvDestroy ex_aws_vm])
   \<and> vbox_RunPodSandbox ex_vbox_empty
     ((ex_vbox_backend 0)\<lparr>be_CreateClient := \<lambda>ip. (None, Some (External ''connection refused''))\<rparr>)
     ex_request =
     (Return (None, Some (Wrap ''CreatePodSandbox: error in createClient()''
                            (External ''connection refused''))),
      ex_vbox_empty,
      [EvProvision \<lparr>vb_Src = ''base.ova'', vb_BackingDevice = ''en0'', vb_Name = []\<rparr>,
       EvGetIPs ex_vbox_vm, EvCreateClient ''10.0.0.2''])"
  by (simp add: aws_RunPodSandbox_def vbox_RunPodSandbox_def ex_aws_empty_def ex_vbox_empty_def
      ex_aws_backend_def ex_vbox_backend_def ex_request_def ex_config_def ex_aws_vm_def
      ex_vbox_vm_def GetName_def GetNamespace_def Let_def)

subsection \<open>Routing of container requests\<close>

lemma strings_Split_first:
  "\<exists>rest. strings_Split s sep = takeWhile (\<lambda>c. c \<noteq> sep) s # rest"
  by (induction s) (auto split: list.splits)

lemma getClient_idle:
  assumes "provider_idle (mg_podProvider m)"
  shows "getClient m sid =
    (Return (case provider_lookup (mg_podProvider m) sid of
               None \<Rightarrow> Inl (Errorf ''unknown pod name'' sid)
             | Some c \<Rightarrow> Inr c), m)"
proof (cases "mg_podProvider m")
  case (AwsProvider v)
  then have "\<not> rw_writer (aws_vmMapLock v)"
    using assms by (simp add: provider_idle_def)
  then have "aws_GetClient v sid =
    (Return (case aws_vmMap v sid of None \<Rightarrow> Inl (Errorf ''unknown pod name'' sid)
             | Some pd \<Rightarrow> Inr (pd_Client pd)), v, [])"
    by (simp add: aws_GetClient_def aws_GetClientLocked_def aws_getPodData_def
        aws_return_RUnlock_def lock_defs split: option.splits)
  then show ?thesis
    using AwsProvider
    by (cases m) (simp add: getClient_def provider_lookup_def split: option.splits)
next
  case (VboxProvider w)
  then have "\<not> vbox_vmMapLock w"
    using assms by (simp add: provider_idle_def)
  then have "vbox_GetClient w sid =
    (Return (case vbox_vmMap w sid of None \<Rightarrow> Inl (Errorf ''unknown pod name'' sid)
             | Some pd \<Rightarrow> Inr (pd_Client pd)), w)"
    by (simp add: vbox_GetClient_def vbox_getPodData_free split: option.splits)
  then show ?thesis
    using VboxProvider
    by (cases m) (simp add: getClient_def provider_lookup_def split: option.splits)
qed

text \<open>
  C6.  The four handlers that receive a container identifier (start, stop, remove and
  status of a container), on a Manager whose provider's directory lock is not held for
  writing.  The sandbox id is the part of the container identifier before its first
  colon.  When the provider's directory has a record under that id, the handler calls the
  agent once, through the record's client pointer and with the request as it came, and
  returns what the agent returned; when it has none, the handler returns an error naming
  the sandbox id and calls no agent.  The Manager is left as it was in both cases.
\<close>

theorem container_requests_are_forwarded:
  assumes "provider_idle (mg_podProvider m)"
  shows "(case provider_lookup (mg_podProvider m)
               (takeWhile (\<lambda>c. c \<noteq> CHR '':'') (GetContainerId (sc_ContainerId sreq))) of
            Some client \<Rightarrow>
              StartContainer m ag sreq =
                (Return (ag_StartContainer ag client sreq), m, [CallStartContainer client sreq])
          | None \<Rightarrow>
              StartContainer m ag sreq =
                (Return (None, Some (Wrap
                   (''Failed to get client for sandbox '' @
                      takeWhile (\<lambda>c. c \<noteq> CHR '':'') (GetContainerId (sc_ContainerId sreq)))
                   (Errorf ''unknown pod name''
                      (takeWhile (\<lambda>c. c \<noteq> CHR '':'') (GetContainerId (sc_ContainerId sreq)))))),
                 m, []))
       \<and> (case provider_lookup (mg_podProvider m)
               (takeWhile (\<lambda>c. c \<noteq> CHR '':'') (GetContainerId (tc_ContainerId treq))) of
            Some client \<Rightarrow>
              StopContainer m ag treq =
                (Return (ag_StopContainer ag client treq), m, [CallStopContainer client treq])
          | None \<Rightarrow>
              StopContainer m ag treq =
                (Return (None, Some (Wrap
                   (''Failed to get client for sandbox '' @
                      takeWhile (\<lambda>c. c \<noteq> CHR '':'') (GetContainerId (tc_ContainerId treq)))
                   (Errorf ''unknown pod name''
                      (takeWhile (\<lambda>c. c \<noteq> CHR '':'') (GetContainerId (tc_ContainerId treq)))))),
                 m, []))
       \<and> (case provider_lookup (mg_podProvider m)
               (takeWhile (\<lambda>c. c \<noteq> CHR '':'') (GetContainerId (rc_ContainerId rreq))) of
            Some client \<Rightarrow>
              RemoveContainer m ag rreq =
                (Return (ag_RemoveContainer ag client rreq), m, [CallRemoveContainer client rreq])
          | None \<Rightarrow>
              RemoveContainer m ag rreq =
                (Return (None, Some (Wrap
                   (''Failed to get client for sandbox '' @
                      takeWhile (\<lambda>c. c \<noteq> CHR '':'') (GetContainerId (rc_ContainerId rreq)))
                   (Errorf ''unknown pod name''
                      (takeWhile (\<lambda>c. c \<noteq> CHR '':'') (GetContainerId (rc_ContainerId rreq)))))),
                 m, []))
       \<and> (case provider_lookup (mg_podProvider m)
               (takeWhile (\<lambda>c. c \<noteq> CHR '':'') (GetContainerId (cs_ContainerId creq))) of
            Some client \<Rightarrow>
              ContainerStatus m ag creq =
                (Return (ag_ContainerStatus ag client creq), m, [CallContainerStatus client creq])
          | None \<Rightarrow>
              ContainerStatus m ag creq =
                (Return (None, Some (Errorf ''failed to get client for sandbox''
                   (takeWhile (\<lambda>c. c \<noteq> CHR '':'') (GetContainerId (cs_ContainerId creq))))),
                 m, []))"
proof -
  obtain r1 where r1: "strings_Split (GetContainerId (sc_ContainerId sreq)) CHR '':'' =
      takeWhile (\<lambda>c. c \<noteq> CHR '':'') (GetContainerId (sc_ContainerId sreq)) # r1"
    using strings_Split_first by blast
  obtain r2 where r2: "strings_Split (GetContainerId (tc_ContainerId treq)) CHR '':'' =
      takeWhile (\<lambda>c. c \<noteq> CHR '':'') (GetContainerId (tc_ContainerId treq)) # r2"
    using strings_Split_first by blast
  obtain r3 where r3: "strings_Split (GetContainerId (rc_ContainerId rreq)) CHR '':'' =
      takeWhile (\<lambda>c. c \<noteq> CHR '':'') (GetContainerId (rc_ContainerId rreq)) # r3"
    using strings_Split_first by blast
  obtain r4 where r4: "strings_Split (GetContainerId (cs_ContainerId creq)) CHR '':'' =
      takeWhile (\<lambda>c. c \<noteq> CHR '':'') (GetContainerId (cs_ContainerId creq)) # r4"
    using strings_Split_first by blast
  show ?thesis
    by (simp add: StartContainer_def StopContainer_def RemoveContainer_def ContainerStatus_def
        r1 r2 r3 r4 getClient_idle [OF assms] split: option.split)
qed

theorem container_requests_are_forwarded_witness:
  "ContainerStatus \<lparr>mg_podProvider = AwsProvider ex_aws\<rparr> ex_agent
     \<lparr>cs_ContainerId = Some ''i-1:abc''\<rparr> =
     (Return (ag_ContainerStatus ex_agent (Some 1) \<lparr>cs_ContainerId = Some ''i-1:abc''\<rparr>),
      \<lparr>mg_podProvider = AwsProvider ex_aws\<rparr>,
      [CallContainerStatus (Some 1) \<lparr>cs_ContainerId = Some ''i-1:abc''\<rparr>])
   \<and> ContainerStatus \<lparr>mg_podProvider = VboxProvider ex_vbox\<rparr> ex_agent
     \<lparr>cs_ContainerId = Some ''sbx-missing:abc''\<rparr> =
     (Return (None, Some (Errorf ''failed to get client for sandbox'' ''sbx-missing'')),
      \<lparr>mg_podProvider = VboxProvider ex_vbox\<rparr>, [])"
proof -
  have i: "provider_idle (mg_podProvider \<lparr>mg_podProvider = AwsProvider ex_aws\<rparr>)"
    "provider_idle (mg_podProvider \<lparr>mg_podProvider = VboxProvider ex_vbox\<rparr>)"
    by (simp_all add: provider_idle_def ex_aws_def ex_vbox_def ex_unlocked_def)
  have l: "provider_lookup (AwsProvider ex_aws) ''i-1'' = Some (Some 1)"
    "provider_lookup (VboxProvider ex_vbox) ''sbx-missing'' = None"
    by (simp_all add: provider_lookup_def ex_aws_def ex_vbox_def ex_aws_pod_def)
  show ?thesis
    using container_requests_are_forwarded [OF i(1), where ag = ex_agent
        and creq = "\<lparr>cs_ContainerId = Some ''i-1:abc''\<rparr>"]
      container_requests_are_forwarded [OF i(2), where ag = ex_agent
        and creq = "\<lparr>cs_ContainerId = Some ''sbx-missing:abc''\<rparr>"]
      l
    by (simp add: GetContainerId_def)
qed

subsection \<open>Requests that do not return\<close>

text \<open>
  Three further ways in which a single request fails to return.  Stop of a known sandbox
  in the cloud provider takes the record's state lock and then calls \<open>StopPod\<close>, which
  takes it again: the request blocks for good.  (The local-hypervisor provider does not
  take the lock itself, and its Stop returns.)  Status of a record created without a
  Linux configuration dereferences the missing configuration.  And RunPodSandbox, when the
  backend reports an empty list of addresses without an error, indexes that list.
\<close>

lemma aws_Stop_known_blocks:
  assumes "aws_vmMap v sid = Some pd" and "\<not> rw_writer (aws_vmMapLock v)"
  shows "fst (aws_StopPodSandbox v sid) = Blocked"
  using assms
  by (simp add: aws_StopPodSandbox_def aws_getPodData_def StopPod_def lock_defs Let_def
      split: option.splits)

lemma vbox_Stop_known:
  assumes "vbox_vmMap w sid = Some qd" and "\<not> vbox_vmMapLock w" and "\<not> pd_StateLock qd"
  shows "vbox_StopPodSandbox w sid =
    (Return (Some StopPodSandboxResponse, None),
     w\<lparr>vbox_vmMap := (vbox_vmMap w)(sid \<mapsto> qd\<lparr>pd_PodState := PodSandBoxState_NOTREADY\<rparr>)\<rparr>, [])"
  using assms
  by (simp add: vbox_StopPodSandbox_def vbox_getPodData_free StopPod_def lock_defs Let_def)

lemma aws_Status_without_Linux_panics:
  assumes "aws_vmMap v sid = Some pd" and "\<not> rw_writer (aws_vmMapLock v)"
    and "\<not> pd_StateLock pd" and "pd_Linux pd = None"
  shows "fst (aws_PodSandboxStatus v be sid) = Panic NilDereference"
proof -
  obtain vs pd2 evs where u: "updateVMState be pd = (vs, pd2, evs)"
    by (cases "updateVMState be pd") auto
  have "pd_Linux pd2 = None"
    using assms(4) updateVMState_frame [OF u] by simp
  then show ?thesis
    using assms(1-3) u
    by (simp add: aws_PodSandboxStatus_def aws_getPodData_def lock_defs Let_def
        updateVMState_StateLock PodStatus_def)
qed

lemma aws_Run_without_address_panics:
  assumes "be_ReadFile be (ac_SshKey (aws_config v)) = Inr key"
    and "rq_Config req = Some config"
    and "be_Provision be
           \<lparr>vm_Name = GetNamespace (cfg_Metadata config) @ '':'' @ GetName (cfg_Metadata config),
            vm_SSHPrivateKey = key, vm_InstanceID = []\<rparr> = Inr vm"
    and "be_GetIPs be vm = Inr []"
  shows "fst (aws_RunPodSandbox v be req) = Panic IndexOutOfRange"
  using assms by (simp add: aws_RunPodSandbox_def Let_def)

end
